theory Spec2Isabelle
  imports Main "HOL-Library.AList"
begin

section \<open>Data model of the Manager\<close>

text \<open>
  The development embeds the class \<open>Manager\<close> (the compiler's orchestrator).
  JavaScript objects used as dictionaries are association lists in insertion order
  (\<open>Object.keys\<close> and lodash \<open>values\<close> enumerate string keys in that order);
  \<open>obj[k] = v\<close> is \<open>AList.update\<close>, \<open>delete obj[k]\<close> is \<open>AList.delete\<close> and a
  read is \<open>map_of\<close>. Transpiled modules are mutable objects shared between the
  path registry, the hash registry and local arrays, so they live in an explicit
  heap (a list indexed by reference). An exception is a value of type \<open>error\<close>;
  a function that can throw returns \<open>(error + 'a) \<times> Manager\<close>: the state reached
  when the exception left the function is part of the result.

  A read of a key that was never set gives \<open>undefined\<close>: the keys that a
  JavaScript object inherits from \<open>Object.prototype\<close> (such as \<open>constructor\<close>) are
  not in the tables. Promises are followed one after the other, in the order in
  which the code creates them; the listeners of the HMR status are observers and
  change nothing of the Manager.
\<close>

datatype error =
    ModuleNotFoundError string bool string
      \<comment> \<open>\<open>new ModuleNotFoundError(path, isDependency, currentPath)\<close>\<close>
  | DependencyNotFoundError string string
      \<comment> \<open>\<open>new DependencyNotFoundError(connectedPath, currentPath)\<close>\<close>
  | JSError string
      \<comment> \<open>\<open>new Error(message)\<close>\<close>
  | ENOENT string
      \<comment> \<open>the error of \<open>readFileSync\<close>: \<open>Could not find p\<close>, code \<open>ENOENT\<close>\<close>
  | TypeError
      \<comment> \<open>a property read on \<open>undefined\<close>\<close>
  | ExternalError string
      \<comment> \<open>an exception raised by a collaborator outside the Manager (resolver,
          transpiler, fetcher)\<close>

text \<open>
  The value of a module's \<open>code\<close> field. It is declared a string, but the
  asynchronous resolver stores the \<open>ENOENT\<close> error object there when it is asked to
  read a file it does not have (\<open>readFileSync\<close> hands the error to a callback that
  expects the code).
\<close>

datatype jscode = Str string | ErrObj error

datatype jsvalue = Undefined | JBool bool | JStr string | JObj "(string \<times> jsvalue) list"

record Module =
  m_path :: string
  m_code :: jscode
  m_requires :: "string list option"
  m_downloaded :: bool
  m_parent :: bool  \<comment> \<open>a \<open>ChildModule\<close>: \<open>parent\<close> is set (emitted by a loader)\<close>

text \<open>
  Modelled from the spec: the class \<open>TranspiledModule\<close> is not part of the
  sources at hand. The record holds the fields the Manager reads or writes directly
  (\<open>module\<close>, \<open>query\<close>, \<open>hash\<close>, \<open>isTestFile\<close>, \<open>errors\<close>,
  \<open>hasMissingDependencies\<close>, \<open>compilation\<close>, \<open>hmrConfig\<close>) and the fields the spec
  lists for the node (\<open>source\<close>, \<open>isEntry\<close>). \<open>hmrConfig\<close> is \<open>None\<close> when the
  object is absent and \<open>Some d\<close> when present with \<open>isDirty() = d\<close>.
\<close>

record TranspiledModule =
  tm_module :: Module
  tm_query :: string
  tm_hash :: string
  isEntry :: bool
  isTestFile :: bool
  tm_errors :: "string list"
  hasMissingDependencies :: bool
  tm_source :: "string option"
  compilation :: "jsvalue option"
  hmrConfig :: "bool option"

type_synonym tmref = nat

record ModuleEntry =
  entry_module :: Module
  tModules :: "(string \<times> tmref) list"

record Manifest =
  contents :: "(string \<times> (string \<times> string list)) list"
  dependencies :: "(string \<times> string) list"  \<comment> \<open>\<open>{name, version}\<close> in order\<close>
  dependencyDependencies :: "(string \<times> (string \<times> string \<times> string list)) list"
  dependencyAliases :: "(string \<times> (string \<times> string) list) list"

text \<open>
  Of \<open>ParsedConfigurationFiles\<close> the Manager reads the TypeScript and jsconfig
  compiler options (\<open>generated\<close>, \<open>parsed.compilerOptions.baseUrl\<close>) and the sandbox
  configuration's \<open>parsed.hardReloadOnChange\<close>.
\<close>

record CompilerConfig =
  generated :: bool
  baseUrl :: "string option"

record Configurations =
  typescript :: "CompilerConfig option"
  jsconfig :: "CompilerConfig option"
  sandbox :: "bool option"  \<comment> \<open>\<open>sandbox.parsed.hardReloadOnChange\<close> when a sandbox config exists\<close>

datatype HMRStatus = Idle | Check | Apply | Fail | Dispose

datatype Stage = Transpilation | Evaluation

type_synonym CachedPaths = "(string \<times> (string \<times> string) list) list"

text \<open>
  The Manager's fields. \<open>combinedMetas\<close> is the module-level table of
  \<open>fetch-npm-module\<close> the Manager reads and replaces; \<open>reloads\<close> counts the calls of
  \<open>document.location.reload()\<close> and \<open>idbClears\<close> those of \<open>clearIndexedDBCache()\<close>,
  the two effects on the host page that the Manager triggers. The Manager is
  constructed without a host file resolver (\<open>options.hasFileResolver = false\<close>), so
  \<open>isFile\<close> and \<open>readFileSync\<close> answer without suspending.
\<close>

record Manager =
  transpiledModules :: "(string \<times> ModuleEntry) list"
  transpiledModulesByHash :: "(string \<times> tmref) list"
  heap :: "TranspiledModule list"
  cachedPaths :: CachedPaths
  modules :: "(string \<times> Module) list"
  manifest :: "Manifest option"
  configurations :: Configurations
  envVariables :: "(string \<times> string) list"
  transpileJobs :: "string list"
  hardReload :: bool
  isFirstLoad :: bool
  hmrStatus :: HMRStatus
  stage :: Stage
  combinedMetas :: "string list"
  reloads :: nat
  idbClears :: nat

type_synonym 'a result = "(error + 'a) \<times> Manager"

datatype 'a promise = Fulfilled 'a | Rejected error

record ResolveOptions =
  filename :: string
  extensions :: "string list"
  isFile_cb :: "string \<Rightarrow> bool"
  readFileSync_cb :: "string \<Rightarrow> error + jscode"
  moduleDirectory :: "string list"

record SerializedTranspiledModule =
  stm_module :: Module
  stm_query :: string
  stm_source :: "string option"

record SerializedData =
  sd_transpiledModules :: "(string \<times> SerializedTranspiledModule) list"
  sd_cachedPaths :: CachedPaths
  sd_version :: string
  sd_timestamp :: nat
  sd_configurations :: Configurations
  sd_entry :: "string option"
  sd_meta :: "(string \<times> string list) list"
  sd_dependenciesQuery :: string

text \<open>
  The collaborators the Manager imports or is constructed with, none of which is
  part of the sources at hand: the path utilities, \<open>getDependencyName\<close>, the core
  library table, the preset, the \<open>browser-resolve\<close> resolver (one function for
  \<open>resolve.sync\<close> and for \<open>resolve\<close> with a callback: with synchronous \<open>isFile\<close>
  and \<open>readFileSync\<close> the callback runs before \<open>resolve\<close> returns, with the
  result \<open>resolve.sync\<close> returns or throws), \<open>splitQueryFromPath\<close>
  (giving \<open>(queryPath, modulePath)\<close>), \<open>SCRIPT_VERSION\<close>, \<open>dependenciesToQuery\<close>,
  \<open>fetchModule\<close> and the methods of \<open>TranspiledModule\<close>. A method that is handed
  the Manager may change all of it; a method that is not works on the graph of
  transpiled modules only. \<open>shouldTranspile\<close> is the check of the Babel transpiler
  (code and path: the code holds module syntax), and \<open>removeBrowserField\<close> stands
  for \<open>JSON.parse\<close>, \<open>delete pJsonCode.browser\<close> and \<open>JSON.stringify\<close> on the
  content of a \<open>package.json\<close>.
\<close>

record env =
  path_join :: "string \<Rightarrow> string \<Rightarrow> string"
  path_dirname :: "string \<Rightarrow> string"
  path_basename :: "string \<Rightarrow> string"
  getDependencyName :: "string \<Rightarrow> string"
  coreLibraries :: "(string \<times> string) list"
  getAliasedPath :: "string \<Rightarrow> string"
  ignoredExtensions :: "string list"
  resolve_sync :: "string \<Rightarrow> ResolveOptions \<Rightarrow> error + string"
  splitQueryFromPath :: "string \<Rightarrow> string \<times> string"
  SCRIPT_VERSION :: string
  dependenciesToQuery :: "(string \<times> string) list \<Rightarrow> string"
  hashOf :: "string \<Rightarrow> string \<Rightarrow> string"
  fetchModule :: "Manager \<Rightarrow> string \<Rightarrow> tmref \<Rightarrow> string list \<Rightarrow> (error + Module) \<times> Manager"
  tm_getId :: "TranspiledModule \<Rightarrow> string"
  tm_update :: "TranspiledModule list \<Rightarrow> tmref \<Rightarrow> Module \<Rightarrow> TranspiledModule list"
  tm_resetTranspilation :: "TranspiledModule list \<Rightarrow> tmref \<Rightarrow> TranspiledModule list"
  tm_shouldTranspile :: "TranspiledModule list \<Rightarrow> tmref \<Rightarrow> bool"
  tm_dispose :: "Manager \<Rightarrow> tmref \<Rightarrow> Manager"
  tm_transpile :: "Manager \<Rightarrow> tmref \<Rightarrow> error + Manager"
  tm_evaluate :: "Manager \<Rightarrow> tmref \<Rightarrow> bool \<times> bool \<Rightarrow> (error + jsvalue) \<times> Manager"
  tm_postEvaluate :: "Manager \<Rightarrow> tmref \<Rightarrow> Manager"
  tm_serialize :: "TranspiledModule list \<Rightarrow> tmref \<Rightarrow> bool \<Rightarrow> error + SerializedTranspiledModule"
  tm_load :: "Manager \<Rightarrow> tmref \<Rightarrow> SerializedTranspiledModule \<Rightarrow> (string \<times> tmref) list \<Rightarrow> error + Manager"
  shouldTranspile :: "string \<Rightarrow> string \<Rightarrow> bool"
  removeBrowserField :: "string \<Rightarrow> error + string"


section \<open>Strings and JavaScript truthiness\<close>

fun startsWith :: "string \<Rightarrow> string \<Rightarrow> bool" where
  "startsWith s [] = True"
| "startsWith [] (p # ps) = False"
| "startsWith (c # cs) (p # ps) = (c = p \<and> startsWith cs ps)"

definition endsWith :: "string \<Rightarrow> string \<Rightarrow> bool" where
  "endsWith s p = startsWith (rev s) (rev p)"

fun str_includes :: "string \<Rightarrow> string \<Rightarrow> bool" where
  "str_includes [] p = (p = [])"
| "str_includes (c # cs) p = (startsWith (c # cs) p \<or> str_includes cs p)"

text \<open>
  \<open>s.replace(pat, rep)\<close> with a string pattern: the first occurrence only. The
  replacement is taken literally (the Manager's replacements are the empty string
  and a dependency name, which holds no \<open>$\<close> pattern).
\<close>

fun str_replace :: "string \<Rightarrow> string \<Rightarrow> string \<Rightarrow> string" where
  "str_replace pat rep [] = (if pat = [] then rep else [])"
| "str_replace pat rep (c # cs) =
     (if startsWith (c # cs) pat then rep @ drop (length pat) (c # cs)
      else c # str_replace pat rep cs)"

definition wordChar :: "char \<Rightarrow> bool" where
  "wordChar c =
     (let n = (of_char c :: nat)
      in (48 \<le> n \<and> n \<le> 57) \<or> (65 \<le> n \<and> n \<le> 90) \<or> n = 95 \<or> (97 \<le> n \<and> n \<le> 122))"

text \<open>The test \<open>/^(\w|@\w)/\<close>: the request names a dependency.\<close>

fun isDependencyRequest :: "string \<Rightarrow> bool" where
  "isDependencyRequest [] = False"
| "isDependencyRequest (c # cs) =
     (wordChar c \<or> (c = CHR ''@'' \<and> (case cs of [] \<Rightarrow> False | d # _ \<Rightarrow> wordChar d)))"

text \<open>
  \<open>s.replace(/.*\{\{sandboxRoot\}\}/, '')\<close>: the dot matches no line terminator and
  the star is greedy, so in the first line that holds the token everything up to the
  end of the token's last occurrence goes.
\<close>

fun afterLast :: "string \<Rightarrow> string \<Rightarrow> string option" where
  "afterLast tok [] = (if tok = [] then Some [] else None)"
| "afterLast tok (c # cs) =
     (case afterLast tok cs of
        Some r \<Rightarrow> Some r
      | None \<Rightarrow> if startsWith (c # cs) tok then Some (drop (length tok) (c # cs)) else None)"

definition lineTerminator :: "char \<Rightarrow> bool" where
  "lineTerminator c = (c = CHR 0x0A \<or> c = CHR 0x0D)"

function stripSandboxRoot :: "string \<Rightarrow> string" where
  "stripSandboxRoot s =
     (let line = takeWhile (\<lambda>c. \<not> lineTerminator c) s;
          rest = dropWhile (\<lambda>c. \<not> lineTerminator c) s
      in case afterLast ''{{sandboxRoot}}'' line of
           Some r \<Rightarrow> r @ rest
         | None \<Rightarrow> (case rest of [] \<Rightarrow> line | t # rest' \<Rightarrow> line @ t # stripSandboxRoot rest'))"
  by pat_completeness auto
termination
proof (relation "measure length")
  show "wf (measure length)" by simp
next
  fix s :: string and line rest t rest'
  assume "rest = dropWhile (\<lambda>c. \<not> lineTerminator c) s" and "rest = t # rest'"
  then have "length (t # rest') \<le> length s"
    using length_dropWhile_le [of "\<lambda>c. \<not> lineTerminator c" s] by simp
  then show "(rest', s) \<in> measure length" by simp
qed

text \<open>A string is truthy when it is present and not empty.\<close>

definition truthy :: "string option \<Rightarrow> bool" where
  "truthy v = (case v of None \<Rightarrow> False | Some x \<Rightarrow> x \<noteq> [])"

section \<open>The cache of resolved paths\<close>

definition cache_get :: "CachedPaths \<Rightarrow> string \<Rightarrow> string \<Rightarrow> string option" where
  \<comment> \<open>\<open>this.cachedPaths[dirredPath][path]\<close>, the directory's table being there\<close>
  "cache_get cp d r = (case map_of cp d of None \<Rightarrow> None | Some inner \<Rightarrow> map_of inner r)"

definition cache_ensure :: "CachedPaths \<Rightarrow> string \<Rightarrow> CachedPaths" where
  \<comment> \<open>\<open>if (this.cachedPaths[dirredPath] === undefined) this.cachedPaths[dirredPath] = {}\<close>\<close>
  "cache_ensure cp d = (case map_of cp d of None \<Rightarrow> AList.update d [] cp | Some _ \<Rightarrow> cp)"

definition cache_set :: "CachedPaths \<Rightarrow> string \<Rightarrow> string \<Rightarrow> string \<Rightarrow> CachedPaths" where
  \<comment> \<open>\<open>this.cachedPaths[dirredPath][path] = v\<close>\<close>
  "cache_set cp d r v =
     (case map_of cp d of
        None \<Rightarrow> cp
      | Some inner \<Rightarrow> AList.update d (AList.update r v inner) cp)"

definition cache_delete :: "CachedPaths \<Rightarrow> string \<Rightarrow> string \<Rightarrow> CachedPaths" where
  \<comment> \<open>\<open>delete this.cachedPaths[dirredPath][path]\<close>\<close>
  "cache_delete cp d r =
     (case map_of cp d of
        None \<Rightarrow> cp
      | Some inner \<Rightarrow> AList.update d (AList.delete r inner) cp)"

section \<open>The registries\<close>

definition NODE_LIBS :: "string list" where
  "NODE_LIBS = [''dgram'', ''net'', ''tls'', ''fs'', ''module'', ''child_process'']"

definition SHIMMED_MODULE :: "env \<Rightarrow> Module" where
  "SHIMMED_MODULE E =
     \<lparr>m_path = path_join E (path_join E ''/node_modules'' ''empty'') ''index.js'',
      m_code = Str ''// empty'', m_requires = Some [], m_downloaded = False,
      m_parent = False\<rparr>"

definition getShimmedModuleFromPath :: "env \<Rightarrow> string \<Rightarrow> string \<Rightarrow> Module" where
  "getShimmedModuleFromPath E currentPath p =
     (SHIMMED_MODULE E)\<lparr>m_path := path_join E (path_dirname E currentPath) p\<rparr>"

definition tmAt :: "Manager \<Rightarrow> tmref \<Rightarrow> TranspiledModule option" where
  "tmAt s r = (if r < length (heap s) then Some (heap s ! r) else None)"

definition hasModule :: "Manager \<Rightarrow> string \<Rightarrow> bool" where
  \<comment> \<open>\<open>this.transpiledModules[p]\<close> is there\<close>
  "hasModule s p = (map_of (transpiledModules s) p \<noteq> None)"

definition isFile :: "Manager \<Rightarrow> string \<Rightarrow> bool" where
  "isFile s p =
     (if stage s = Transpilation then hasModule s p \<or> p \<in> set (combinedMetas s)
      else hasModule s p)"

definition readFileSync :: "Manager \<Rightarrow> string \<Rightarrow> error + jscode" where
  "readFileSync s p =
     (case map_of (transpiledModules s) p of
        Some e \<Rightarrow> Inr (m_code (entry_module e))
      | None \<Rightarrow> Inl (ENOENT (''Could not find '' @ p)))"

definition addModule :: "Manager \<Rightarrow> Module \<Rightarrow> Manager" where
  "addModule s m =
     (case map_of (transpiledModules s) (m_path m) of
        Some _ \<Rightarrow> s
      | None \<Rightarrow>
          s\<lparr>transpiledModules :=
              AList.update (m_path m) \<lparr>entry_module = m, tModules = []\<rparr> (transpiledModules s)\<rparr>)"

text \<open>
  Modelled from the spec: the constructor of \<open>TranspiledModule\<close> is not part of the
  sources at hand. A new node holds its module and query, the hash of the pair, and
  nothing else: no source, no compilation, no errors, no flags.
\<close>

definition new_TranspiledModule :: "env \<Rightarrow> Module \<Rightarrow> string \<Rightarrow> TranspiledModule" where
  "new_TranspiledModule E m q =
     \<lparr>tm_module = m, tm_query = q, tm_hash = hashOf E (m_path m) q, isEntry = False,
      isTestFile = False, tm_errors = [], hasMissingDependencies = False,
      tm_source = None, compilation = None, hmrConfig = None\<rparr>"

definition addTranspiledModule :: "env \<Rightarrow> Manager \<Rightarrow> Module \<Rightarrow> string \<Rightarrow> tmref \<times> Manager" where
  "addTranspiledModule E s m q =
     (let s1 = (if \<not> hasModule s (m_path m) then addModule s m else s);
          tm = new_TranspiledModule E m q;
          r = length (heap s1);
          old = (case map_of (transpiledModules s1) (m_path m) of
                   Some e \<Rightarrow> tModules e | None \<Rightarrow> [])
      in (r, s1\<lparr>heap := heap s1 @ [tm],
                transpiledModules :=
                  AList.update (m_path m)
                    \<lparr>entry_module = m, tModules = AList.update q r old\<rparr> (transpiledModules s1),
                transpiledModulesByHash :=
                  AList.update (tm_hash tm) r (transpiledModulesByHash s1)\<rparr>))"

definition getTranspiledModule :: "env \<Rightarrow> Manager \<Rightarrow> Module \<Rightarrow> string \<Rightarrow> tmref \<times> Manager" where
  "getTranspiledModule E s m q =
     (let s1 = (if \<not> hasModule s (m_path m) then addModule s m else s)
      in case map_of (transpiledModules s1) (m_path m) of
           None \<Rightarrow> addTranspiledModule E s1 m q
         | Some e \<Rightarrow>
             (case map_of (tModules e) q of
                Some r \<Rightarrow> (r, s1)
              | None \<Rightarrow> addTranspiledModule E s1 m q))"

definition getTranspiledModulesByModule :: "Manager \<Rightarrow> Module \<Rightarrow> tmref list" where
  "getTranspiledModulesByModule s m =
     (case map_of (transpiledModules s) (m_path m) of
        Some e \<Rightarrow> map snd (tModules e)
      | None \<Rightarrow> [])"

definition getTranspiledModules :: "Manager \<Rightarrow> tmref list" where
  "getTranspiledModules s = map snd (transpiledModulesByHash s)"

definition getModules :: "Manager \<Rightarrow> Module list" where
  "getModules s = map (\<lambda>e. entry_module (snd e)) (transpiledModules s)"


declare stripSandboxRoot.simps [simp del]

section \<open>The resolver\<close>

definition thenDo :: "'a result \<Rightarrow> ('a \<Rightarrow> Manager \<Rightarrow> 'b result) \<Rightarrow> 'b result" where
  \<comment> \<open>sequencing: an exception of the first statement skips the second\<close>
  "thenDo r f = (case r of (Inl e, s) \<Rightarrow> (Inl e, s) | (Inr a, s) \<Rightarrow> f a s)"

definition getAliasedDependencyPath :: "env \<Rightarrow> Manager \<Rightarrow> string \<Rightarrow> string \<Rightarrow> error + string" where
  "getAliasedDependencyPath E s p currentPath =
     (if \<not> isDependencyRequest p then Inr p
      else if \<not> startsWith currentPath ''/node_modules'' then Inr p
      else
        let dependencyName = getDependencyName E p;
            previousDependencyName =
              getDependencyName E (str_replace ''/node_modules/'' [] currentPath)
        in case manifest s of
             None \<Rightarrow> Inl TypeError
           | Some mf \<Rightarrow>
               (case map_of (dependencyAliases mf) previousDependencyName of
                  None \<Rightarrow> Inr p
                | Some aliases \<Rightarrow>
                    (if truthy (map_of aliases dependencyName)
                     then Inr (str_replace dependencyName (the (map_of aliases dependencyName)) p)
                     else Inr p)))"

definition getPresetAliasedPath :: "env \<Rightarrow> string \<Rightarrow> string" where
  "getPresetAliasedPath E p = stripSandboxRoot (getAliasedPath E p)"

definition getModuleDirectories :: "Manager \<Rightarrow> string list" where
  "getModuleDirectories s =
     (let baseTSCompilerConfig =
            find (\<lambda>config. case config of None \<Rightarrow> False | Some c \<Rightarrow> \<not> generated c)
              [typescript (configurations s), jsconfig (configurations s)];
          baseUrl' = (case baseTSCompilerConfig of Some (Some c) \<Rightarrow> baseUrl c | _ \<Rightarrow> None)
      in map the (filter truthy [Some ''node_modules'', baseUrl', map_of (envVariables s) ''NODE_PATH'']))"

definition resolveOptions :: "Manager \<Rightarrow> string \<Rightarrow> string list \<Rightarrow> ResolveOptions" where
  "resolveOptions s currentPath defaultExtensions =
     \<lparr>filename = currentPath,
      extensions = map (\<lambda>ext. ''.'' @ ext) defaultExtensions,
      isFile_cb = isFile s,
      readFileSync_cb = readFileSync s,
      moduleDirectory = getModuleDirectories s\<rparr>"

definition getShimmedPath :: "env \<Rightarrow> Manager \<Rightarrow> string \<Rightarrow> string \<Rightarrow> error + string" where
  \<comment> \<open>preset alias, dependency alias, core library table: the three rewrites before
      the resolver runs\<close>
  "getShimmedPath E s p currentPath =
     (let presetAliasedPath = getPresetAliasedPath E p
      in case getAliasedDependencyPath E s presetAliasedPath currentPath of
           Inl e \<Rightarrow> Inl e
         | Inr aliasedPath \<Rightarrow>
             Inr (if truthy (map_of (coreLibraries E) aliasedPath)
                  then the (map_of (coreLibraries E) aliasedPath) else aliasedPath))"

definition connectedPathOf :: "env \<Rightarrow> string \<Rightarrow> string \<Rightarrow> string" where
  \<comment> \<open>the catch block's \<open>connectedPath\<close> before \<open>/node_modules/\<close> is cut out of it\<close>
  "connectedPathOf E shimmedPath currentPath =
     (if \<not> startsWith shimmedPath ''/node_modules''
      then (if isDependencyRequest shimmedPath
            then path_join E ''/node_modules'' shimmedPath
            else path_join E (path_dirname E currentPath) shimmedPath)
      else shimmedPath)"

definition knownDependency :: "Manifest \<Rightarrow> string \<Rightarrow> bool" where
  \<comment> \<open>\<open>manifest.dependencies.find(d => d.name === name) || manifest.dependencyDependencies[name]\<close>\<close>
  "knownDependency mf name =
     (find (\<lambda>d. fst d = name) (dependencies mf) \<noteq> None
      \<or> map_of (dependencyDependencies mf) name \<noteq> None)"

text \<open>
  The catch block of \<open>resolveModule\<close>, which \<open>resolveModuleAsync\<close> repeats
  statement by statement: it purges the cache entry and chooses the error.
\<close>

definition resolveCatch ::
  "env \<Rightarrow> Manager \<Rightarrow> string \<Rightarrow> string \<Rightarrow> string \<Rightarrow> string \<Rightarrow> error \<times> Manager" where
  "resolveCatch E s dirredPath p shimmedPath currentPath =
     (let s1 = (if map_of (cachedPaths s) dirredPath \<noteq> None
                   \<and> truthy (cache_get (cachedPaths s) dirredPath p)
                then s\<lparr>cachedPaths := cache_delete (cachedPaths s) dirredPath p\<rparr> else s);
          connectedPath0 = connectedPathOf E shimmedPath currentPath;
          isDependency = str_includes connectedPath0 ''/node_modules/'';
          connectedPath = str_replace ''/node_modules/'' [] connectedPath0
      in if \<not> isDependency then (ModuleNotFoundError shimmedPath False currentPath, s1)
         else
           let dependencyName = getDependencyName E connectedPath
           in case manifest s1 of
                None \<Rightarrow> (TypeError, s1)
              | Some mf \<Rightarrow>
                  if knownDependency mf dependencyName
                  then (ModuleNotFoundError connectedPath True currentPath, s1)
                  else (DependencyNotFoundError connectedPath currentPath, s1))"

definition moduleAt :: "Manager \<Rightarrow> string \<Rightarrow> error + Module" where
  \<comment> \<open>\<open>this.transpiledModules[resolvedPath].module\<close>\<close>
  "moduleAt s p =
     (case map_of (transpiledModules s) p of
        None \<Rightarrow> Inl TypeError
      | Some e \<Rightarrow> Inr (entry_module e))"

definition resolveModule ::
  "env \<Rightarrow> Manager \<Rightarrow> string \<Rightarrow> string \<Rightarrow> string list \<Rightarrow> Module result" where
  "resolveModule E s p currentPath defaultExtensions =
     (let dirredPath = path_dirname E currentPath;
          s0 = s\<lparr>cachedPaths := cache_ensure (cachedPaths s) dirredPath\<rparr>;
          cachedPath = cache_get (cachedPaths s0) dirredPath p
      in if truthy cachedPath \<and> hasModule s0 (the cachedPath)
         then (if the cachedPath = ''//empty.js''
               then (Inr (getShimmedModuleFromPath E currentPath p), s0)
               else (moduleAt s0 (the cachedPath), s0))
         else
           (case getShimmedPath E s0 p currentPath of
              Inl e \<Rightarrow> (Inl e, s0)
            | Inr shimmedPath \<Rightarrow>
                if shimmedPath \<in> set NODE_LIBS
                then (Inr (getShimmedModuleFromPath E currentPath p),
                      s0\<lparr>cachedPaths := cache_set (cachedPaths s0) dirredPath p shimmedPath\<rparr>)
                else
                  (case resolve_sync E shimmedPath (resolveOptions s0 currentPath defaultExtensions) of
                     Inl err \<Rightarrow>
                       (case resolveCatch E s0 dirredPath p shimmedPath currentPath of
                          (e, s2) \<Rightarrow> (Inl e, s2))
                   | Inr resolvedPath \<Rightarrow>
                       let s1 = s0\<lparr>cachedPaths :=
                                    cache_set (cachedPaths s0) dirredPath p resolvedPath\<rparr>
                       in if resolvedPath = ''//empty.js''
                          then (Inr (getShimmedModuleFromPath E currentPath p), s1)
                          else if \<not> hasModule s1 resolvedPath
                          then (case resolveCatch E s1 dirredPath p shimmedPath currentPath of
                                  (e, s2) \<Rightarrow> (Inl e, s2))
                          else (moduleAt s1 resolvedPath, s1))))"

text \<open>
  \<open>resolveModuleAsync\<close>: the settled state of the promise it returns, and the
  Manager then. An exception inside the executor rejects the promise unless
  \<open>promiseResolve\<close> ran before. On a cache hit the executor goes straight to its
  last statement, \<open>promiseResolve(this.transpiledModules[resolvedPath].module)\<close>.
  When the resolver finds a path that the registry lacks, \<open>readFileSync\<close> is asked
  with a callback, has no file to give and hands it the \<open>ENOENT\<close> error, which
  the callback stores as the new module's code.
\<close>

definition resolveModuleAsync ::
  "env \<Rightarrow> Manager \<Rightarrow> string \<Rightarrow> string \<Rightarrow> string list \<Rightarrow> Module promise \<times> Manager" where
  "resolveModuleAsync E s p currentPath defaultExtensions =
     (let dirredPath = path_dirname E currentPath;
          s0 = s\<lparr>cachedPaths := cache_ensure (cachedPaths s) dirredPath\<rparr>;
          cachedPath = cache_get (cachedPaths s0) dirredPath p
      in if truthy cachedPath
         then (case moduleAt s0 (the cachedPath) of
                 Inl e \<Rightarrow> (Rejected e, s0)
               | Inr m \<Rightarrow> (Fulfilled m, s0))
         else
           (case getShimmedPath E s0 p currentPath of
              Inl e \<Rightarrow> (Rejected e, s0)
            | Inr shimmedPath \<Rightarrow>
                if shimmedPath \<in> set NODE_LIBS
                then (Fulfilled (getShimmedModuleFromPath E currentPath p),
                      s0\<lparr>cachedPaths := cache_set (cachedPaths s0) dirredPath p shimmedPath\<rparr>)
                else
                  (case resolve_sync E shimmedPath (resolveOptions s0 currentPath defaultExtensions) of
                     Inl err \<Rightarrow>
                       (case resolveCatch E s0 dirredPath p shimmedPath currentPath of
                          (e, s2) \<Rightarrow> (Rejected e, s2))
                   | Inr foundPath \<Rightarrow>
                       let s1 = s0\<lparr>cachedPaths :=
                                    cache_set (cachedPaths s0) dirredPath p foundPath\<rparr>
                       in if foundPath = ''//empty.js''
                          then (Fulfilled (getShimmedModuleFromPath E currentPath p), s1)
                          else if \<not> hasModule s1 foundPath
                          then
                            (let code = (case readFileSync s1 foundPath of
                                           Inl err \<Rightarrow> ErrObj err | Inr c \<Rightarrow> c);
                                 m = \<lparr>m_path = foundPath, m_code = code, m_requires = None,
                                      m_downloaded = False, m_parent = False\<rparr>;
                                 s2 = addModule s1 m
                             in case moduleAt s2 foundPath of
                                  Inl e \<Rightarrow> (Rejected e, s2)
                                | Inr m' \<Rightarrow> (Fulfilled m', s2))
                          else (case moduleAt s1 foundPath of
                                  Inl e \<Rightarrow> (Rejected e, s1)
                                | Inr m \<Rightarrow> (Fulfilled m, s1)))))"

text \<open>
  \<open>resolveTranspiledModule\<close> returns a transpiled module, or with \<open>async\<close> a
  promise of one, or throws.
\<close>

datatype resolved = Direct tmref | Eventually "tmref promise"

definition resolveTranspiledModule ::
  "env \<Rightarrow> Manager \<Rightarrow> string \<Rightarrow> string \<Rightarrow> string list option \<Rightarrow> bool \<Rightarrow> resolved result" where
  "resolveTranspiledModule E s p currentPath ignoredExts async =
     (if startsWith p ''webpack:'' then (Inl (JSError ''Cannot resolve webpack path''), s)
      else
        let queryPath = fst (splitQueryFromPath E p);
            modulePath = snd (splitQueryFromPath E p);
            exts = (case ignoredExts of Some x \<Rightarrow> x | None \<Rightarrow> ignoredExtensions E)
        in if async
           then (case resolveModuleAsync E s modulePath currentPath exts of
                   (Rejected e, s1) \<Rightarrow> (Inr (Eventually (Rejected e)), s1)
                 | (Fulfilled m, s1) \<Rightarrow>
                     (case getTranspiledModule E s1 m queryPath of
                        (r, s2) \<Rightarrow> (Inr (Eventually (Fulfilled r)), s2)))
           else (case resolveModule E s modulePath currentPath exts of
                   (Inl e, s1) \<Rightarrow> (Inl e, s1)
                 | (Inr m, s1) \<Rightarrow>
                     (case getTranspiledModule E s1 m queryPath of
                        (r, s2) \<Rightarrow> (Inr (Direct r), s2))))"

definition downloadDependency ::
  "env \<Rightarrow> Manager \<Rightarrow> string \<Rightarrow> tmref \<Rightarrow> string \<Rightarrow> string list option \<Rightarrow> tmref promise \<times> Manager" where
  "downloadDependency E s p currentTModule q ignoredExts =
     (let exts = (case ignoredExts of Some x \<Rightarrow> x | None \<Rightarrow> ignoredExtensions E)
      in case fetchModule E s p currentTModule exts of
           (Inl e, s1) \<Rightarrow> (Rejected e, s1)
         | (Inr m, s1) \<Rightarrow>
             (case getTranspiledModule E s1 m q of (r, s2) \<Rightarrow> (Fulfilled r, s2)))"

text \<open>
  \<open>resolveTranspiledModuleAsync\<close>. Its catch clause tests
  \<open>e.type === 'module-not-found' && e.isDependency\<close>; modelled from the spec,
  which gives \<open>ModuleNotFoundError\<close> the fields \<open>(path, isDependency, fromPath)\<close>
  and \<open>DependencyNotFoundError\<close> the fields \<open>(name, fromPath)\<close>: the test holds of a
  \<open>ModuleNotFoundError\<close> whose \<open>isDependency\<close> is true and of no other error.
\<close>

definition isMissingDependencyFile :: "error \<Rightarrow> string option" where
  "isMissingDependencyFile e =
     (case e of ModuleNotFoundError p True f \<Rightarrow> Some p | _ \<Rightarrow> None)"

definition resolveTranspiledModuleAsync ::
  "env \<Rightarrow> Manager \<Rightarrow> string \<Rightarrow> tmref option \<Rightarrow> string list option \<Rightarrow> tmref promise \<times> Manager" where
  "resolveTranspiledModuleAsync E s p currentTModule ignoredExts =
     (let start =
            (case currentTModule of
               Some r \<Rightarrow> (Inr r, s)
             | None \<Rightarrow>
                 (case map_of (modules s) ''/package.json'' of
                    None \<Rightarrow> (Inl TypeError, s)
                  | Some m \<Rightarrow> (case getTranspiledModule E s m [] of (r, s') \<Rightarrow> (Inr r, s'))))
      in case start of
           (Inl e, s0) \<Rightarrow> (Rejected e, s0)
         | (Inr tModule, s0) \<Rightarrow>
             (case tmAt s0 tModule of
                None \<Rightarrow> (Rejected TypeError, s0)
              | Some tm \<Rightarrow>
                  (case resolveTranspiledModule E s0 p (m_path (tm_module tm)) ignoredExts False of
                     (Inr (Direct r), s1) \<Rightarrow> (Fulfilled r, s1)
                   | (Inr (Eventually pr), s1) \<Rightarrow> (pr, s1)
                   | (Inl e, s1) \<Rightarrow>
                       (case isMissingDependencyFile e of
                          Some epath \<Rightarrow>
                            downloadDependency E s1 epath tModule
                              (fst (splitQueryFromPath E p)) ignoredExts
                        | None \<Rightarrow> (Rejected e, s1)))))"


section \<open>Removing and updating modules\<close>

fun forEach :: "('a \<Rightarrow> Manager \<Rightarrow> unit result) \<Rightarrow> 'a list \<Rightarrow> Manager \<Rightarrow> unit result" where
  "forEach f [] s = (Inr (), s)"
| "forEach f (x # xs) s =
     (case f x s of (Inl e, s') \<Rightarrow> (Inl e, s') | (Inr _, s') \<Rightarrow> forEach f xs s')"

definition removeTranspiledModule :: "Manager \<Rightarrow> tmref \<Rightarrow> unit result" where
  "removeTranspiledModule s r =
     (case tmAt s r of
        None \<Rightarrow> (Inl TypeError, s)
      | Some tm \<Rightarrow>
          (let s1 = s\<lparr>transpiledModulesByHash := AList.delete (tm_hash tm) (transpiledModulesByHash s)\<rparr>
           in (case map_of (transpiledModules s1) (m_path (tm_module tm)) of
                 None \<Rightarrow> (Inl TypeError, s1)
               | Some e \<Rightarrow>
                   (Inr (), s1\<lparr>transpiledModules :=
                              AList.update (m_path (tm_module tm))
                                (e\<lparr>tModules := AList.delete (tm_query tm) (tModules e)\<rparr>)
                                (transpiledModules s1)\<rparr>))))"

definition removeModule :: "env \<Rightarrow> Module \<Rightarrow> Manager \<Rightarrow> unit result" where
  "removeModule E m s =
     (let s1 = s\<lparr>cachedPaths := []\<rparr>
      in case map_of (transpiledModules s1) (m_path m) of
           None \<Rightarrow> (Inl TypeError, s1)
         | Some existingModule \<Rightarrow>
             thenDo
               (forEach (\<lambda>r st. removeTranspiledModule (tm_dispose E st r) r)
                  (map snd (tModules existingModule)) s1)
               (\<lambda>u s2. (Inr (), s2\<lparr>transpiledModules :=
                                    AList.delete (m_path m) (transpiledModules s2)\<rparr>)))"

definition updateModule :: "env \<Rightarrow> Manager \<Rightarrow> Module \<Rightarrow> tmref list result" where
  "updateModule E s m =
     (case map_of (transpiledModules s) (m_path m) of
        None \<Rightarrow> (Inl TypeError, s)
      | Some e \<Rightarrow>
          let s1 = s\<lparr>transpiledModules :=
                      AList.update (m_path m) (e\<lparr>entry_module := m\<rparr>) (transpiledModules s)\<rparr>;
              tms = getTranspiledModulesByModule s1 m
          in (Inr tms, s1\<lparr>heap := fold (\<lambda>r h. tm_update E h r m) tms (heap s1)\<rparr>))"

section \<open>updateData\<close>

text \<open>
  lodash \<open>uniq\<close> keeps the first occurrence of each element. Modules are compared
  by value: the incoming table holds one module per path, so two of its modules are
  never the same object.
\<close>

fun uniq :: "'a list \<Rightarrow> 'a list" where
  "uniq [] = []"
| "uniq (x # xs) = x # uniq (removeAll x xs)"

text \<open>
  The first loop of \<open>updateData\<close>, over the keys of the incoming table (a
  JavaScript object: each key once): the added and the updated modules, the cache
  being reset at each of them.
\<close>

fun diffModules :: "(string \<times> Module) list \<Rightarrow> Manager \<Rightarrow> Module list \<times> Module list \<times> Manager" where
  "diffModules [] s = ([], [], s)"
| "diffModules ((k, m) # rest) s =
     (case map_of (transpiledModules s) k of
        None \<Rightarrow>
          (case diffModules rest (s\<lparr>cachedPaths := []\<rparr>) of
             (added, updated, s') \<Rightarrow> (m # added, updated, s'))
      | Some mirrorModule \<Rightarrow>
          if m_code (entry_module mirrorModule) \<noteq> m_code m
          then (case diffModules rest (s\<lparr>cachedPaths := []\<rparr>) of
                  (added, updated, s') \<Rightarrow> (added, m # updated, s'))
          else diffModules rest s)"

definition isDeleted :: "(string \<times> Module) list \<Rightarrow> Module \<Rightarrow> bool" where
  \<comment> \<open>the test of the second loop\<close>
  "isDeleted ms m =
     (\<not> startsWith (m_path m) ''/node_modules''
      \<and> m_path m \<noteq> ''/var/task/node_modules/browser-resolve/empty.js''
      \<and> map_of ms (m_path m) = None
      \<and> \<not> m_parent m)"

fun updateModules :: "env \<Rightarrow> Module list \<Rightarrow> Manager \<Rightarrow> tmref list list result" where
  "updateModules E [] s = (Inr [], s)"
| "updateModules E (m # ms) s =
     (case updateModule E s m of
        (Inl e, s') \<Rightarrow> (Inl e, s')
      | (Inr tms, s') \<Rightarrow>
          (case updateModules E ms s' of
             (Inl e, s'') \<Rightarrow> (Inl e, s'')
           | (Inr rest, s'') \<Rightarrow> (Inr (tms # rest), s'')))"

definition tmFlag :: "(TranspiledModule \<Rightarrow> bool) \<Rightarrow> TranspiledModule list \<Rightarrow> tmref \<Rightarrow> bool" where
  \<comment> \<open>a boolean read of the transpiled module behind a reference\<close>
  "tmFlag f h r = (r < length h \<and> f (h ! r))"

text \<open>
  The filter that collects the modules with errors; its callback resets the
  transpilation of a module with missing dependencies before it answers.
\<close>

fun modulesWithErrors :: "env \<Rightarrow> tmref list \<Rightarrow> TranspiledModule list \<Rightarrow> tmref list \<times> TranspiledModule list" where
  "modulesWithErrors E [] h = ([], h)"
| "modulesWithErrors E (t # ts) h =
     (let h1 = (if tmFlag hasMissingDependencies h t then tm_resetTranspilation E h t else h);
          keep = (tmFlag (\<lambda>tm. tm_errors tm \<noteq> []) h1 t \<or> tmFlag hasMissingDependencies h1 t)
      in case modulesWithErrors E ts h1 of
           (kept, h') \<Rightarrow> (if keep then t # kept else kept, h'))"

text \<open>
  The first part of \<open>updateData\<close>, up to \<open>allModulesToUpdate\<close>: the diff, the
  removals, the additions, the updates and the collection of the modules with errors.
\<close>

definition updateData_collect ::
  "env \<Rightarrow> Manager \<Rightarrow> (string \<times> Module) list \<Rightarrow> tmref list result" where
  "updateData_collect E s ms =
     (let s0 = s\<lparr>transpileJobs := [], hardReload := False, isFirstLoad := False, modules := ms\<rparr>
      in case diffModules ms s0 of
           (addedModules, updatedModules, s1) \<Rightarrow>
             thenDo (forEach (removeModule E) (filter (isDeleted ms) (getModules s1)) s1)
               (\<lambda>u s2.
                  let s3 = fold (\<lambda>m st. snd (addTranspiledModule E st m [])) addedModules s2;
                      modulesToUpdate = uniq (addedModules @ updatedModules)
                  in thenDo (updateModules E modulesToUpdate s3)
                       (\<lambda>tModulesToUpdate s4.
                          let s5 = (if tModulesToUpdate \<noteq> [] \<and> sandbox (configurations s4) \<noteq> None
                                    then s4\<lparr>hardReload := the (sandbox (configurations s4))\<rparr>
                                    else s4)
                          in case modulesWithErrors E (getTranspiledModules s5) (heap s5) of
                               (modulesWithWErrors, h6) \<Rightarrow>
                                 (Inr (uniq (concat tModulesToUpdate @ modulesWithWErrors)),
                                  s5\<lparr>heap := h6\<rparr>))))"

text \<open>
  The retranspile pass, one module after the other. A module that need not be
  transpiled contributes \<open>false\<close> (\<open>None\<close>) to the array. Modelled from the spec
  (``returns the list of successfully retranspiled TMs''): the promise of
  \<open>transpile\<close> resolves to the module it was called on.
\<close>

fun transpileAll :: "env \<Rightarrow> tmref list \<Rightarrow> Manager \<Rightarrow> tmref option list result" where
  "transpileAll E [] s = (Inr [], s)"
| "transpileAll E (t # ts) s =
     (if tm_shouldTranspile E (heap s) t
      then (case tm_transpile E s t of
              Inl e \<Rightarrow> (Inl e, s)
            | Inr s' \<Rightarrow>
                (case transpileAll E ts s' of
                   (Inl e, s'') \<Rightarrow> (Inl e, s'')
                 | (Inr res, s'') \<Rightarrow> (Inr (Some t # res), s'')))
      else (case transpileAll E ts s of
              (Inl e, s'') \<Rightarrow> (Inl e, s'')
            | (Inr res, s'') \<Rightarrow> (Inr (None # res), s'')))"

text \<open>
  The rest of \<open>updateData\<close>: the test files among \<open>allModulesToUpdate\<close> have their
  transpilation reset, the others go through the retranspile pass.
\<close>

definition updateData :: "env \<Rightarrow> Manager \<Rightarrow> (string \<times> Module) list \<Rightarrow> tmref option list result" where
  "updateData E s ms =
     thenDo (updateData_collect E s ms)
       (\<lambda>allModulesToUpdate s6.
          let transpiledModulesToUpdate =
                filter (\<lambda>r. \<not> tmFlag isTestFile (heap s6) r) allModulesToUpdate;
              h7 = fold (\<lambda>r h. tm_resetTranspilation E h r)
                     (filter (tmFlag isTestFile (heap s6)) allModulesToUpdate) (heap s6)
          in transpileAll E transpiledModulesToUpdate (s6\<lparr>heap := h7\<rparr>))"

definition markHardReload :: "Manager \<Rightarrow> Manager" where
  "markHardReload s = s\<lparr>hmrStatus := Fail, hardReload := True\<rparr>"

section \<open>Serialization and cache loading\<close>

definition allTModules :: "Manager \<Rightarrow> tmref list" where
  \<comment> \<open>every \<open>this.transpiledModules[path].tModules[query]\<close>, path by path\<close>
  "allTModules s = concat (map (\<lambda>e. map snd (tModules (snd e))) (transpiledModules s))"

definition notPrecomputed :: "Manifest \<Rightarrow> TranspiledModule \<Rightarrow> bool" where
  \<comment> \<open>the test under which \<open>serialize\<close> saves a transpiled module\<close>
  "notPrecomputed mf tm =
     (map_of (contents mf) (m_path (tm_module tm)) = None
      \<or> (endsWith (m_path (tm_module tm)) ''.js'' \<and> m_requires (tm_module tm) = None)
      \<or> m_downloaded (tm_module tm))"

fun serializeTModules ::
  "env \<Rightarrow> Manager \<Rightarrow> bool \<Rightarrow> tmref list \<Rightarrow> (string \<times> SerializedTranspiledModule) list
     \<Rightarrow> error + (string \<times> SerializedTranspiledModule) list" where
  "serializeTModules E s opt [] acc = Inr acc"
| "serializeTModules E s opt (r # rs) acc =
     (case tmAt s r of
        None \<Rightarrow> Inl TypeError
      | Some tm \<Rightarrow>
          (case manifest s of
             None \<Rightarrow> Inl TypeError
           | Some mf \<Rightarrow>
               if notPrecomputed mf tm
               then (case tm_serialize E (heap s) r opt of
                       Inl e \<Rightarrow> Inl e
                     | Inr stm \<Rightarrow>
                         serializeTModules E s opt rs (AList.update (tm_getId E tm) stm acc))
               else serializeTModules E s opt rs acc))"

definition getDependencyQuery :: "env \<Rightarrow> Manager \<Rightarrow> string" where
  "getDependencyQuery E s =
     (case manifest s of
        None \<Rightarrow> []
      | Some mf \<Rightarrow>
          dependenciesToQuery E
            (fold (\<lambda>dep acc. AList.update (fst dep) (snd dep) acc) (dependencies mf) []))"

definition serializeMeta :: "env \<Rightarrow> string list \<Rightarrow> (string \<times> string list) list" where
  "serializeMeta E metas =
     fold (\<lambda>p meta.
             let dir = path_dirname E (str_replace ''/node_modules'' [] p);
                 old = (case map_of meta dir of None \<Rightarrow> [] | Some fs \<Rightarrow> fs)
             in AList.update dir (old @ [path_basename E p]) meta)
       metas []"

definition serialize :: "env \<Rightarrow> Manager \<Rightarrow> string option \<Rightarrow> bool \<Rightarrow> nat \<Rightarrow> error + SerializedData" where
  \<comment> \<open>the last argument is the clock, \<open>new Date().getTime()\<close>\<close>
  "serialize E s entryPath optimizeForSize now =
     (case serializeTModules E s optimizeForSize (allTModules s) [] of
        Inl e \<Rightarrow> Inl e
      | Inr serializedTModules \<Rightarrow>
          Inr \<lparr>sd_transpiledModules = serializedTModules,
               sd_cachedPaths = cachedPaths s,
               sd_version = SCRIPT_VERSION E,
               sd_timestamp = now,
               sd_configurations = configurations s,
               sd_entry = entryPath,
               sd_meta = serializeMeta E (combinedMetas s),
               sd_dependenciesQuery = getDependencyQuery E s\<rparr>)"

definition clearCache :: "Manager \<Rightarrow> Manager" where
  "clearCache s = s\<lparr>idbClears := Suc (idbClears s)\<rparr>"

definition metaPaths :: "(string \<times> string list) list \<Rightarrow> string list" where
  \<comment> \<open>the keys of \<open>newCombinedMetas\<close>, in the order they are first set\<close>
  "metaPaths meta =
     uniq (concat (map (\<lambda>(dir, files). map (\<lambda>file. ''/node_modules'' @ dir @ ''/'' @ file) files) meta))"

fun loadCreate ::
  "env \<Rightarrow> (string \<times> SerializedTranspiledModule) list \<Rightarrow> (string \<times> tmref) list \<Rightarrow> Manager
     \<Rightarrow> (string \<times> tmref) list \<times> Manager" where
  "loadCreate E [] tms s = (tms, s)"
| "loadCreate E ((ident, stm) # rest) tms s =
     (case addTranspiledModule E s (stm_module stm) (stm_query stm) of
        (r, s') \<Rightarrow> loadCreate E rest (AList.update ident r tms) s')"

fun loadConnect ::
  "env \<Rightarrow> (string \<times> SerializedTranspiledModule) list \<Rightarrow> (string \<times> tmref) list
     \<Rightarrow> (string \<times> tmref) list \<Rightarrow> Manager \<Rightarrow> unit result" where
  "loadConnect E sers all [] s = (Inr (), s)"
| "loadConnect E sers all ((ident, r) # rest) s =
     (case map_of sers ident of
        None \<Rightarrow> (Inl TypeError, s)
      | Some stm \<Rightarrow>
          (case tm_load E s r stm all of
             Inl e \<Rightarrow> (Inl e, s)
           | Inr s' \<Rightarrow> loadConnect E sers all rest s'))"

text \<open>
  The body of the \<open>try\<close> block of \<open>load\<close>; \<open>load\<close> itself swallows the exception
  and keeps the state reached.
\<close>

definition load_try :: "env \<Rightarrow> Manager \<Rightarrow> SerializedData option \<Rightarrow> unit result" where
  "load_try E s dat =
     (case dat of
        None \<Rightarrow> (Inr (), s)
      | Some d \<Rightarrow>
          let s1 = clearCache s
          in if sd_version d = SCRIPT_VERSION E
                \<and> sd_dependenciesQuery d = getDependencyQuery E s1
             then
               let s2 = s1\<lparr>combinedMetas := metaPaths (sd_meta d),
                           cachedPaths := sd_cachedPaths d,
                           configurations := sd_configurations d\<rparr>
               in case loadCreate E (sd_transpiledModules d) [] s2 of
                    (tms, s3) \<Rightarrow> loadConnect E (sd_transpiledModules d) tms tms s3
             else (Inr (), s1))"

definition load :: "env \<Rightarrow> Manager \<Rightarrow> SerializedData option \<Rightarrow> unit result" where
  "load E s dat = (case load_try E s dat of (_, s') \<Rightarrow> (Inr (), clearCache s'))"

section \<open>Evaluation\<close>

fun evaluateEach :: "env \<Rightarrow> tmref list \<Rightarrow> Manager \<Rightarrow> unit result" where
  "evaluateEach E [] s = (Inr (), s)"
| "evaluateEach E (t # ts) s =
     (case tm_evaluate E s t (False, False) of
        (Inl e, s') \<Rightarrow> (Inl e, s')
      | (Inr _, s') \<Rightarrow> evaluateEach E ts s')"

definition resetCompilationIfForced :: "bool \<Rightarrow> tmref \<Rightarrow> Manager \<Rightarrow> Manager" where
  \<comment> \<open>\<open>if (force && transpiledModule.compilation) transpiledModule.compilation = null\<close>\<close>
  "resetCompilationIfForced force r s =
     (if force \<and> tmFlag (\<lambda>tm. compilation tm \<noteq> None) (heap s) r
      then s\<lparr>heap := (heap s)[r := (heap s ! r)\<lparr>compilation := None\<rparr>]\<rparr>
      else s)"

definition evaluateTranspiledModule ::
  "env \<Rightarrow> Manager \<Rightarrow> tmref \<Rightarrow> bool \<Rightarrow> bool \<Rightarrow> jsvalue result" where
  "evaluateTranspiledModule E s r force testGlobals =
     tm_evaluate E (resetCompilationIfForced force r s) r (force, testGlobals)"

definition postEvaluateAll :: "env \<Rightarrow> Manager \<Rightarrow> Manager" where
  "postEvaluateAll E s = fold (\<lambda>r st. tm_postEvaluate E st r) (getTranspiledModules s) s"

definition evaluateModule :: "env \<Rightarrow> Manager \<Rightarrow> Module \<Rightarrow> bool \<Rightarrow> bool \<Rightarrow> jsvalue result" where
  "evaluateModule E s m force testGlobals =
     (if hardReload s \<and> \<not> isFirstLoad s
      then (Inr (JObj []), s\<lparr>reloads := Suc (reloads s)\<rparr>)
      else
        thenDo
          (evaluateEach E
             (filter (tmFlag (\<lambda>tm. hmrConfig tm = Some True) (heap s)) (getTranspiledModules s)) s)
          (\<lambda>u s1.
             case getTranspiledModule E s1 m [] of
               (r, s2) \<Rightarrow>
                 (let s3 = resetCompilationIfForced force r s2
                  in (case evaluateTranspiledModule E s3 r force testGlobals of
                        (Inl e, s4) \<Rightarrow> (Inl e, postEvaluateAll E s4)
                      | (Inr exports, s4) \<Rightarrow>
                          (Inr exports, postEvaluateAll E (s4\<lparr>hmrStatus := Idle\<rparr>))))))"


section \<open>The manifest\<close>

definition SKIPPED_BROWSER_FIELD_DEPENDENCIES :: "string list" where
  "SKIPPED_BROWSER_FIELD_DEPENDENCIES =
     map (\<lambda>next. ''/node_modules/'' @ next @ ''/package.json'') [''babel-core'', ''@babel/core'']"

text \<open>
  The module \<open>setManifest\<close> makes of one entry of the manifest's contents: it gets
  the entry's \<open>requires\<close> only when its code need not be transpiled.
\<close>

definition manifestModule :: "env \<Rightarrow> string \<Rightarrow> string \<times> string list \<Rightarrow> error + Module" where
  "manifestModule E p entry =
     (case (if p \<in> set SKIPPED_BROWSER_FIELD_DEPENDENCIES
            then removeBrowserField E (fst entry) else Inr (fst entry)) of
        Inl e \<Rightarrow> Inl e
      | Inr code \<Rightarrow>
          Inr \<lparr>m_path = p, m_code = Str code,
               m_requires = (if \<not> shouldTranspile E code p then Some (snd entry) else None),
               m_downloaded = False, m_parent = False\<rparr>)"

fun addManifestModules ::
  "env \<Rightarrow> (string \<times> (string \<times> string list)) list \<Rightarrow> Manager \<Rightarrow> unit result" where
  "addManifestModules E [] s = (Inr (), s)"
| "addManifestModules E ((p, entry) # rest) s =
     (case manifestModule E p entry of
        Inl e \<Rightarrow> (Inl e, s)
      | Inr m \<Rightarrow> addManifestModules E rest (addModule s m))"

definition setManifest :: "env \<Rightarrow> Manager \<Rightarrow> Manifest option \<Rightarrow> unit result" where
  "setManifest E s given =
     (let mf = (case given of
                  Some m \<Rightarrow> m
                | None \<Rightarrow> \<lparr>contents = [], dependencies = [], dependencyDependencies = [],
                            dependencyAliases = []\<rparr>)
      in addManifestModules E (contents mf) (s\<lparr>manifest := Some mf\<rparr>))"

section \<open>The constructor, and a sample environment\<close>

definition newManager :: "(string \<times> Module) list \<Rightarrow> Manager" where
  \<comment> \<open>the state the constructor leaves: empty registries, every given module added\<close>
  "newManager ms =
     fold (\<lambda>km st. addModule st (snd km)) ms
       \<lparr>transpiledModules = [], transpiledModulesByHash = [], heap = [], cachedPaths = [],
        modules = ms, manifest = None,
        configurations = \<lparr>typescript = None, jsconfig = None, sandbox = None\<rparr>,
        envVariables = [], transpileJobs = [], hardReload = False, isFirstLoad = True,
        hmrStatus = Idle, stage = Transpilation, combinedMetas = [], reloads = 0,
        idbClears = 0\<rparr>"

text \<open>
  Concrete collaborators on which the model runs: path functions that join with a
  slash and drop a leading \<open>./\<close>, a resolver that tries the path, the path with
  each extension and its \<open>index.js\<close> (and answers \<open>//empty.js\<close> for the package
  \<open>browser-false\<close>, as \<open>browser-resolve\<close> does for a package whose \<open>browser\<close> field
  is \<open>false\<close>), a fetcher that stores the file it downloads, transpiled-module
  methods that set and clear \<open>source\<close>, and a check that has code transpiled when
  it starts with \<open>import\<close> or \<open>export\<close>.
\<close>

definition sample_dirname :: "string \<Rightarrow> string" where
  "sample_dirname p =
     (let d = rev (drop 1 (dropWhile (\<lambda>c. c \<noteq> CHR ''/'') (rev p)))
      in if d = [] then (if startsWith p ''/'' then ''/'' else ''.'') else d)"

definition sample_basename :: "string \<Rightarrow> string" where
  "sample_basename p = rev (takeWhile (\<lambda>c. c \<noteq> CHR ''/'') (rev p))"

definition sample_join :: "string \<Rightarrow> string \<Rightarrow> string" where
  "sample_join a b =
     (let b' = (if startsWith b ''./'' then drop 2 b else b)
      in if endsWith a ''/'' then a @ b' else a @ ''/'' @ b')"

definition sample_getDependencyName :: "string \<Rightarrow> string" where
  "sample_getDependencyName p =
     (let first = takeWhile (\<lambda>c. c \<noteq> CHR ''/'') p;
          rest = drop 1 (dropWhile (\<lambda>c. c \<noteq> CHR ''/'') p)
      in if startsWith p ''@'' then first @ ''/'' @ takeWhile (\<lambda>c. c \<noteq> CHR ''/'') rest
         else first)"

definition sample_resolve :: "string \<Rightarrow> ResolveOptions \<Rightarrow> error + string" where
  "sample_resolve p opts =
     (if p = ''browser-false'' then Inr ''//empty.js''
      else
        let base = (if startsWith p ''/'' then p
                    else if startsWith p ''.'' then sample_join (sample_dirname (filename opts)) p
                    else sample_join ''/node_modules'' p)
        in case find (isFile_cb opts)
                  (base # map (\<lambda>e. base @ e) (extensions opts) @ [sample_join base ''index.js'']) of
             Some f \<Rightarrow> Inr f
           | None \<Rightarrow> Inl (ExternalError (''Cannot find module '' @ p)))"

definition sample_splitQueryFromPath :: "string \<Rightarrow> string \<times> string" where
  "sample_splitQueryFromPath p =
     (rev (drop 1 (dropWhile (\<lambda>c. c \<noteq> CHR ''!'') (rev p))),
      rev (takeWhile (\<lambda>c. c \<noteq> CHR ''!'') (rev p)))"

definition sample_fetchModule ::
  "Manager \<Rightarrow> string \<Rightarrow> tmref \<Rightarrow> string list \<Rightarrow> (error + Module) \<times> Manager" where
  "sample_fetchModule s p r exts =
     (let m = \<lparr>m_path = ''/node_modules/'' @ p @ ''/index.js'',
               m_code = Str ''module.exports = {}'', m_requires = None,
               m_downloaded = True, m_parent = False\<rparr>
      in (Inr m, addModule s m))"

definition sample_setSource :: "string option \<Rightarrow> TranspiledModule list \<Rightarrow> tmref \<Rightarrow> TranspiledModule list" where
  "sample_setSource src h r =
     (if r < length h then h[r := (h ! r)\<lparr>tm_source := src, tm_errors := [],
                                          hasMissingDependencies := False\<rparr>] else h)"

definition sample_env :: env where
  "sample_env =
     \<lparr>path_join = sample_join,
      path_dirname = sample_dirname,
      path_basename = sample_basename,
      getDependencyName = sample_getDependencyName,
      coreLibraries = [(''path'', ''path-browserify'')],
      getAliasedPath = (\<lambda>p. p),
      ignoredExtensions = [''js'', ''jsx'', ''json''],
      resolve_sync = sample_resolve,
      splitQueryFromPath = sample_splitQueryFromPath,
      SCRIPT_VERSION = ''v1'',
      dependenciesToQuery = (\<lambda>deps. concat (map (\<lambda>d. fst d @ ''@'' @ snd d @ ''+'') deps)),
      hashOf = (\<lambda>p q. p @ '':'' @ q),
      fetchModule = sample_fetchModule,
      tm_getId = (\<lambda>tm. m_path (tm_module tm) @ '':'' @ tm_query tm),
      tm_update = (\<lambda>h r m. if r < length h
                             then (sample_setSource None h r)[r := (sample_setSource None h r ! r)\<lparr>tm_module := m\<rparr>]
                             else h),
      tm_resetTranspilation = sample_setSource None,
      tm_shouldTranspile = (\<lambda>h r. tmFlag (\<lambda>tm. tm_source tm = None) h r),
      tm_dispose = (\<lambda>s r. s\<lparr>heap := sample_setSource None (heap s) r\<rparr>),
      tm_transpile = (\<lambda>s r. Inr (s\<lparr>heap := sample_setSource (Some ''transpiled'') (heap s) r\<rparr>)),
      tm_evaluate = (\<lambda>s r opts. if r < length (heap s)
                                   then (Inr (JObj []),
                                         s\<lparr>heap := (heap s)[r := (heap s ! r)\<lparr>compilation := Some (JObj [])\<rparr>]\<rparr>)
                                   else (Inl TypeError, s)),
      tm_postEvaluate = (\<lambda>s r. s),
      tm_serialize = (\<lambda>h r opt. if r < length h
                                   then Inr \<lparr>stm_module = tm_module (h ! r), stm_query = tm_query (h ! r),
                                             stm_source = tm_source (h ! r)\<rparr>
                                   else Inl TypeError),
      tm_load = (\<lambda>s r stm all. Inr (s\<lparr>heap := sample_setSource (stm_source stm) (heap s) r\<rparr>)),
      shouldTranspile = (\<lambda>code p. startsWith code ''import '' \<or> startsWith code ''export ''),
      removeBrowserField = (\<lambda>content. Inr content)\<rparr>"

definition sample_module :: "string \<Rightarrow> string \<Rightarrow> Module" where
  "sample_module p c =
     \<lparr>m_path = p, m_code = Str c, m_requires = None, m_downloaded = False, m_parent = False\<rparr>"

definition sample_manifest :: Manifest where
  "sample_manifest =
     \<lparr>contents = [], dependencies = [(''lodash'', ''4.17.21'')],
      dependencyDependencies = [], dependencyAliases = []\<rparr>"

definition sample_index :: Module where
  "sample_index = sample_module ''/index.js'' ''exports.answer = dep.value + 1''"

definition sample_modules :: "(string \<times> Module) list" where
  "sample_modules =
     [(''/index.js'', sample_index), (''/dep.js'', sample_module ''/dep.js'' ''exports.value = 41'')]"

definition sample_manager :: Manager where
  \<comment> \<open>a new Manager with two files, and a manifest that knows \<open>lodash\<close>\<close>
  "sample_manager = (newManager sample_modules)\<lparr>manifest := Some sample_manifest\<rparr>"

definition sample_transpiled :: Manager where
  \<comment> \<open>the same, once \<open>/index.js\<close> has its transpiled module (reference 0)\<close>
  "sample_transpiled = snd (getTranspiledModule sample_env sample_manager sample_index [])"

definition sample_cache :: SerializedData where
  \<comment> \<open>what \<open>serialize\<close> makes of it\<close>
  "sample_cache = projr (serialize sample_env sample_transpiled (Some ''/index.js'') True 0)"

definition sample_other_dependencies :: Manager where
  \<comment> \<open>a new Manager whose manifest lists \<open>react\<close> instead of \<open>lodash\<close>\<close>
  "sample_other_dependencies =
     sample_manager\<lparr>manifest := Some (sample_manifest\<lparr>dependencies := [(''react'', ''17.0.0'')]\<rparr>)\<rparr>"

definition sample_fs_cached :: Manager where
  \<comment> \<open>the Manager after \<open>resolveModuleAsync('fs', '/index.js')\<close>\<close>
  "sample_fs_cached = snd (resolveModuleAsync sample_env sample_manager ''fs'' ''/index.js'' [''js''])"

definition sample_dep_cached :: Manager where
  \<comment> \<open>the Manager after \<open>resolveModule('./dep', '/index.js')\<close>\<close>
  "sample_dep_cached = snd (resolveModule sample_env sample_manager ''./dep'' ''/index.js'' [''js''])"

definition sample_shim_cached :: Manager where
  \<comment> \<open>the Manager after \<open>resolveModule('browser-false', '/index.js')\<close>\<close>
  "sample_shim_cached =
     snd (resolveModule sample_env sample_manager ''browser-false'' ''/index.js'' [''js''])"

definition no_resolver :: "string \<Rightarrow> ResolveOptions \<Rightarrow> error + string" where
  \<comment> \<open>a resolver that cannot be reached\<close>
  "no_resolver p opts = Inl (ExternalError ''resolver unavailable'')"

definition sample_lodash :: Module where
  \<comment> \<open>the manifest's file, as \<open>setManifest\<close> adds it when it needs no transpilation\<close>
  "sample_lodash =
     \<lparr>m_path = ''/node_modules/lodash/index.js'', m_code = Str ''module.exports = {}'',
      m_requires = Some [], m_downloaded = False, m_parent = False\<rparr>"

definition sample_precomputed :: Manager where
  \<comment> \<open>the manifest brings that file; transpiled modules for \<open>/index.js\<close> (0) and
      for the manifest's file (1)\<close>
  "sample_precomputed =
     snd (getTranspiledModule sample_env
            (sample_transpiled\<lparr>manifest := Some (sample_manifest\<lparr>contents :=
               [(''/node_modules/lodash/index.js'', (''module.exports = {}'', []))]\<rparr>)\<rparr>)
            sample_lodash [])"

definition sample_esm_manifest :: Manifest where
  \<comment> \<open>a manifest that brings one file, an ES module named \<open>.mjs\<close>\<close>
  "sample_esm_manifest =
     \<lparr>contents = [(''/node_modules/esm-lib/index.mjs'', (''export default 1'', []))],
      dependencies = [(''esm-lib'', ''1.0.0'')],
      dependencyDependencies = [], dependencyAliases = []\<rparr>"

definition sample_esm :: Manager where
  \<comment> \<open>a new Manager after \<open>setManifest\<close>, with a transpiled module (reference 0) for
      the manifest's file\<close>
  "sample_esm =
     (let s = snd (setManifest sample_env (newManager sample_modules) (Some sample_esm_manifest))
      in snd (getTranspiledModule sample_env s
                (projr (moduleAt s ''/node_modules/esm-lib/index.mjs'')) []))"

definition sample_tested :: Manager where
  \<comment> \<open>\<open>/index.js\<close> (0) and the test file \<open>/index.test.js\<close> (1), both transpiled,
      with a cached resolution\<close>
  "sample_tested =
     (let s = snd (getTranspiledModule sample_env
                     (snd (resolveModule sample_env sample_transpiled ''./dep'' ''/index.js'' [''js'']))
                     (sample_module ''/index.test.js'' ''expect(answer).toBe(42)'') []);
          h = sample_setSource (Some ''transpiled'') (sample_setSource (Some ''transpiled'') (heap s) 0) 1
      in s\<lparr>heap := h[1 := (h ! 1)\<lparr>isTestFile := True\<rparr>]\<rparr>)"

definition sample_edit :: "(string \<times> Module) list" where
  \<comment> \<open>both files edited, \<open>/dep.js\<close> kept\<close>
  "sample_edit =
     [(''/index.js'', sample_module ''/index.js'' ''exports.answer = dep.value + 2''),
      (''/dep.js'', sample_module ''/dep.js'' ''exports.value = 41''),
      (''/index.test.js'', sample_module ''/index.test.js'' ''expect(answer).toBe(43)'')]"

section \<open>The module set has changed\<close>


text \<open>The promise that settles as a call returned or threw.\<close>

definition settled :: "Module result \<Rightarrow> Module promise \<times> Manager" where
  "settled r = (case r of (Inl e, s) \<Rightarrow> (Rejected e, s) | (Inr m, s) \<Rightarrow> (Fulfilled m, s))"

text \<open>The identifiers \<open>serialize\<close> persists, out of a list of transpiled modules.\<close>

definition persisted :: "env \<Rightarrow> Manager \<Rightarrow> Manifest \<Rightarrow> tmref list \<Rightarrow> string set" where
  "persisted E s mf rs =
     {ident. \<exists>r\<in>set rs. case tmAt s r of None \<Rightarrow> False
                          | Some tm \<Rightarrow> tm_getId E tm = ident \<and> notPrecomputed mf tm}"

section \<open>The cache of resolved paths: basic facts\<close>

lemma cache_get_ensure: "cache_get (cache_ensure cp d) d' r = cache_get cp d' r"
  by (auto simp: cache_get_def cache_ensure_def update_conv' split: option.splits)

lemma cache_ensure_dir: "map_of (cache_ensure cp d) d \<noteq> None"
  by (auto simp: cache_ensure_def update_conv' split: option.splits)

lemma cache_get_delete: "cache_get (cache_delete cp d r) d r = None"
  by (auto simp: cache_get_def cache_delete_def update_conv' delete_conv' split: option.splits)

lemma cache_get_set: "map_of cp d \<noteq> None \<Longrightarrow> cache_get (cache_set cp d r v) d r = Some v"
  by (auto simp: cache_get_def cache_set_def update_conv' split: option.splits)

lemma cache_set_dir: "map_of cp d \<noteq> None \<Longrightarrow> map_of (cache_set cp d r v) d \<noteq> None"
  by (auto simp: cache_set_def update_conv' split: option.splits)

lemma hasModule_cachedPaths [simp]: "hasModule (s\<lparr>cachedPaths := c\<rparr>) = hasModule s"
  by (simp add: hasModule_def fun_eq_iff)

lemma resolveOptions_cachedPaths [simp]:
  "resolveOptions (s\<lparr>cachedPaths := c\<rparr>) = resolveOptions s"
  by (simp add: resolveOptions_def fun_eq_iff isFile_def readFileSync_def getModuleDirectories_def)

lemma getShimmedPath_cachedPaths [simp]:
  "getShimmedPath E (s\<lparr>cachedPaths := c\<rparr>) = getShimmedPath E s"
  by (simp add: getShimmedPath_def getAliasedDependencyPath_def fun_eq_iff Let_def)

lemma moduleAt_cachedPaths [simp]: "moduleAt (s\<lparr>cachedPaths := c\<rparr>) = moduleAt s"
  by (simp add: moduleAt_def fun_eq_iff)

lemma moduleAt_hasModule: "hasModule s p \<Longrightarrow> \<exists>m. moduleAt s p = Inr m"
  by (auto simp: hasModule_def moduleAt_def split: option.splits)

lemma hasModule_addModule: "hasModule (addModule s m) (m_path m)"
  by (auto simp: hasModule_def addModule_def update_conv' split: option.splits)

lemma knownDependency_iff:
  "knownDependency mf n \<longleftrightarrow>
     n \<in> fst ` set (dependencies mf) \<or> n \<in> fst ` set (dependencyDependencies mf)"
  by (force simp: knownDependency_def find_None_iff map_of_eq_None_iff)

lemma resolveCatch_error:
  assumes "manifest s = Some mf" and "resolveCatch E s d p sp cur = (e, s')"
  shows "e = (let c = connectedPathOf E sp cur; cut = str_replace ''/node_modules/'' [] c in
              if str_includes c ''/node_modules/''
              then (if knownDependency mf (getDependencyName E cut)
                    then ModuleNotFoundError cut True cur
                    else DependencyNotFoundError cut cur)
              else ModuleNotFoundError sp False cur)"
  using assms by (auto simp: resolveCatch_def Let_def split: if_splits)

lemma resolveCatch_state:
  "snd (resolveCatch E s d p sp cur) =
     (if map_of (cachedPaths s) d \<noteq> None \<and> truthy (cache_get (cachedPaths s) d p)
      then s\<lparr>cachedPaths := cache_delete (cachedPaths s) d p\<rparr> else s)"
  by (simp add: resolveCatch_def Let_def split: option.splits)

lemma resolveCatch_cache:
  assumes "resolveCatch E s d p sp cur = (e, s')" and "cache_get (cachedPaths s) d p \<noteq> Some []"
  shows "cache_get (cachedPaths s') d p = None"
proof -
  have s': "s' = snd (resolveCatch E s d p sp cur)" using assms(1) by simp
  show ?thesis
  proof (cases "map_of (cachedPaths s) d \<noteq> None \<and> truthy (cache_get (cachedPaths s) d p)")
    case True
    then show ?thesis unfolding s' resolveCatch_state by (simp add: cache_get_delete)
  next
    case False
    then have "cache_get (cachedPaths s) d p = None"
      using assms(2) by (auto simp: truthy_def cache_get_def split: option.splits)
    with False show ?thesis unfolding s' resolveCatch_state by auto
  qed
qed


lemma resolveModule_Inl:
  assumes mf: "manifest s = Some mf"
    and sp: "getShimmedPath E s p cur = Inr sp"
    and fails: "resolveModule E s p cur exts = (Inl e, s')"
  shows "\<exists>s1. resolveCatch E s1 (path_dirname E cur) p sp cur = (e, s') \<and> manifest s1 = Some mf
           \<and> (cache_get (cachedPaths s1) (path_dirname E cur) p = cache_get (cachedPaths s) (path_dirname E cur) p
              \<or> (\<exists>rp. resolve_sync E sp (resolveOptions s cur exts) = Inr rp
                     \<and> cache_get (cachedPaths s1) (path_dirname E cur) p = Some rp))"
proof -
  let ?d = "path_dirname E cur"
  let ?s0 = "s\<lparr>cachedPaths := cache_ensure (cachedPaths s) ?d\<rparr>"
  let ?c = "cache_get (cachedPaths ?s0) ?d p"
  show ?thesis
  proof (cases "truthy ?c \<and> hasModule ?s0 (the ?c)")
    case True
    then obtain m where "moduleAt s (the ?c) = Inr m"
      using moduleAt_hasModule [of s "the ?c"] by auto
    with True fails show ?thesis
      by (simp add: resolveModule_def Let_def split: if_splits)
  next
    case False
    show ?thesis
    proof (cases "sp \<in> set NODE_LIBS")
      case True
      with False fails sp show ?thesis
        by (simp add: resolveModule_def Let_def split: if_splits)
    next
      case nolib: False
      show ?thesis
      proof (cases "resolve_sync E sp (resolveOptions s cur exts)")
        case (Inl err)
        with False nolib fails sp
        have "resolveCatch E ?s0 ?d p sp cur = (e, s')"
          by (auto simp: resolveModule_def Let_def split: if_splits prod.splits)
        moreover have "cache_get (cachedPaths ?s0) ?d p = cache_get (cachedPaths s) ?d p"
          by (simp add: cache_get_ensure)
        ultimately show ?thesis using mf by (intro exI [of _ ?s0]) simp
      next
        case (Inr rp)
        let ?s1 = "?s0\<lparr>cachedPaths := cache_set (cachedPaths ?s0) ?d p rp\<rparr>"
        from False nolib fails sp Inr
        have "resolveCatch E ?s1 ?d p sp cur = (e, s')"
          using moduleAt_hasModule [of s rp]
          by (auto simp: resolveModule_def Let_def split: if_splits prod.splits)
        moreover have "cache_get (cachedPaths ?s1) ?d p = Some rp"
          by (simp add: cache_get_set cache_ensure_dir)
        ultimately show ?thesis using mf Inr by (intro exI [of _ ?s1]) simp
      qed
    qed
  qed
qed


lemma moduleAt_addModule: "\<exists>m'. moduleAt (addModule s m) (m_path m) = Inr m'"
  using moduleAt_hasModule [OF hasModule_addModule] .

lemma resolveModuleAsync_Rejected:
  assumes mf: "manifest s = Some mf"
    and sp: "getShimmedPath E s p cur = Inr sp"
    and miss: "\<not> truthy (cache_get (cachedPaths s) (path_dirname E cur) p)"
    and fails: "resolveModuleAsync E s p cur exts = (Rejected e, s')"
  shows "\<exists>s1. resolveCatch E s1 (path_dirname E cur) p sp cur = (e, s') \<and> manifest s1 = Some mf
           \<and> cache_get (cachedPaths s1) (path_dirname E cur) p = cache_get (cachedPaths s) (path_dirname E cur) p"
proof -
  let ?d = "path_dirname E cur"
  let ?s0 = "s\<lparr>cachedPaths := cache_ensure (cachedPaths s) ?d\<rparr>"
  have miss0: "\<not> truthy (cache_get (cache_ensure (cachedPaths s) ?d) ?d p)"
    using miss by (simp add: cache_get_ensure)
  show ?thesis
  proof (cases "sp \<in> set NODE_LIBS")
    case True
    with miss0 fails sp show ?thesis
      by (simp add: resolveModuleAsync_def Let_def split: if_splits)
  next
    case nolib: False
    show ?thesis
    proof (cases "resolve_sync E sp (resolveOptions s cur exts)")
      case (Inl err)
      with miss0 nolib fails sp
      have "resolveCatch E ?s0 ?d p sp cur = (e, s')"
        by (auto simp: resolveModuleAsync_def Let_def split: if_splits prod.splits)
      moreover have "cache_get (cachedPaths ?s0) ?d p = cache_get (cachedPaths s) ?d p"
        by (simp add: cache_get_ensure)
      ultimately show ?thesis using mf by (intro exI [of _ ?s0]) simp
    next
      case (Inr rp)
      let ?s1 = "?s0\<lparr>cachedPaths := cache_set (cachedPaths ?s0) ?d p rp\<rparr>"
      let ?m = "\<lparr>m_path = rp, m_code = (case readFileSync ?s1 rp of Inl err \<Rightarrow> ErrObj err | Inr c \<Rightarrow> c),
                 m_requires = None, m_downloaded = False, m_parent = False\<rparr>"
      have "\<exists>m'. moduleAt (addModule ?s1 ?m) rp = Inr m'"
        using moduleAt_addModule [of ?s1 ?m] by simp
      with miss0 nolib fails sp Inr show ?thesis
        using moduleAt_hasModule [of s rp]
        by (auto simp: resolveModuleAsync_def Let_def split: if_splits prod.splits)
    qed
  qed
qed

lemma cache_ensure_idem: "map_of cp d \<noteq> None \<Longrightarrow> cache_ensure cp d = cp"
  by (auto simp: cache_ensure_def split: option.splits)

lemma cache_get_dir: "cache_get cp d p = Some v \<Longrightarrow> map_of cp d \<noteq> None"
  by (auto simp: cache_get_def split: option.splits)

lemma manager_cachedPaths_same [simp]: "s\<lparr>cachedPaths := cachedPaths s\<rparr> = (s::Manager)"
  by simp

lemma resolveModule_hit:
  assumes c: "cache_get (cachedPaths s) (path_dirname E cur) p = Some rp"
    and ne: "rp \<noteq> []" and ns: "rp \<noteq> ''//empty.js''" and m: "moduleAt s rp = Inr m"
  shows "resolveModule E s p cur exts = (Inr m, s)"
proof -
  have e: "cache_ensure (cachedPaths s) (path_dirname E cur) = cachedPaths s"
    using cache_get_dir [OF c] by (rule cache_ensure_idem)
  have h: "hasModule s rp" using m by (auto simp: hasModule_def moduleAt_def split: option.splits)
  show ?thesis using c ne ns m h
    by (simp add: resolveModule_def Let_def e truthy_def)
qed

lemma hasModule_nonempty: "\<not> hasModule s [] \<Longrightarrow> hasModule s rp \<Longrightarrow> rp \<noteq> []"
  by auto

lemma resolveModule_Inr_cases:
  assumes first: "resolveModule E s p cur exts = (Inr m, s1)"
  shows "(m = getShimmedModuleFromPath E cur p) \<or>
         (\<exists>rp. cache_get (cachedPaths s1) (path_dirname E cur) p = Some rp \<and> hasModule s rp
               \<and> rp \<noteq> ''//empty.js'' \<and> moduleAt s1 rp = Inr m)"
proof -
  let ?d = "path_dirname E cur"
  let ?s0 = "s\<lparr>cachedPaths := cache_ensure (cachedPaths s) ?d\<rparr>"
  let ?c = "cache_get (cachedPaths ?s0) ?d p"
  show ?thesis
  proof (cases "truthy ?c \<and> hasModule ?s0 (the ?c)")
    case True
    then obtain rp where rp: "?c = Some rp" by (auto simp: truthy_def split: option.splits)
    with True first show ?thesis
      by (auto simp: resolveModule_def Let_def split: if_splits)
  next
    case False
    with first obtain sp where sp: "getShimmedPath E s p cur = Inr sp"
      by (cases "getShimmedPath E s p cur") (auto simp: resolveModule_def Let_def)
    show ?thesis
    proof (cases "sp \<in> set NODE_LIBS")
      case True
      with False first sp show ?thesis by (auto simp: resolveModule_def Let_def)
    next
      case nolib: False
      show ?thesis
      proof (cases "resolve_sync E sp (resolveOptions s cur exts)")
        case (Inl err)
        with False nolib first sp show ?thesis
          by (auto simp: resolveModule_def Let_def split: prod.splits)
      next
        case (Inr rp)
        have "cache_get (cache_set (cache_ensure (cachedPaths s) ?d) ?d p rp) ?d p = Some rp"
          by (simp add: cache_get_set cache_ensure_dir)
        with False nolib first sp Inr show ?thesis
          by (auto simp: resolveModule_def Let_def split: prod.splits if_splits)
      qed
    qed
  qed
qed


lemma cache_ensure_twice: "cache_ensure (cache_ensure cp d) d = cache_ensure cp d"
  by (simp add: cache_ensure_idem cache_ensure_dir)

lemma resolveModule_ensured:
  "resolveModule E (s\<lparr>cachedPaths := cache_ensure (cachedPaths s) (path_dirname E cur)\<rparr>) p cur exts
     = resolveModule E s p cur exts"
  by (simp add: resolveModule_def cache_ensure_twice)

lemma NODE_LIBS_nonempty: "sp \<in> set NODE_LIBS \<Longrightarrow> sp \<noteq> []"
  by (auto simp: NODE_LIBS_def)

lemma resolveModule_again:
  assumes first: "resolveModule E s p cur exts = (Inr m, s1)"
    and libs: "\<forall>l\<in>set NODE_LIBS. \<not> hasModule s l"
    and wf: "\<not> hasModule s []"
  shows "fst (resolveModule E s1 p cur exts) = Inr m"
proof -
  let ?d = "path_dirname E cur"
  let ?s0 = "s\<lparr>cachedPaths := cache_ensure (cachedPaths s) ?d\<rparr>"
  let ?c = "cache_get (cachedPaths ?s0) ?d p"
  show ?thesis
  proof (cases "truthy ?c \<and> hasModule ?s0 (the ?c)")
    case True
    with first have "s1 = ?s0"
      by (auto simp: resolveModule_def Let_def split: if_splits)
    then show ?thesis using first by (simp add: resolveModule_ensured)
  next
    case False
    with first obtain sp where sp: "getShimmedPath E s p cur = Inr sp"
      by (cases "getShimmedPath E s p cur") (auto simp: resolveModule_def Let_def)
    show ?thesis
    proof (cases "sp \<in> set NODE_LIBS")
      case True
      let ?s1 = "?s0\<lparr>cachedPaths := cache_set (cachedPaths ?s0) ?d p sp\<rparr>"
      from True False first sp have s1: "s1 = ?s1" and m: "m = getShimmedModuleFromPath E cur p"
        by (auto simp: resolveModule_def Let_def)
      have dir: "map_of (cache_set (cache_ensure (cachedPaths s) ?d) ?d p sp) ?d \<noteq> None"
        by (simp add: cache_set_dir cache_ensure_dir)
      have get: "cache_get (cache_set (cache_ensure (cachedPaths s) ?d) ?d p sp) ?d p = Some sp"
        by (simp add: cache_get_set cache_ensure_dir)
      have "\<not> hasModule s sp" using libs True by blast
      then show ?thesis using True sp
        by (simp add: s1 m resolveModule_def Let_def cache_ensure_idem [OF dir] get)
    next
      case nolib: False
      show ?thesis
      proof (cases "resolve_sync E sp (resolveOptions s cur exts)")
        case (Inl err)
        with False nolib first sp show ?thesis
          by (auto simp: resolveModule_def Let_def split: prod.splits)
      next
        case (Inr rp)
        let ?s1 = "?s0\<lparr>cachedPaths := cache_set (cachedPaths ?s0) ?d p rp\<rparr>"
        have dir: "map_of (cache_set (cache_ensure (cachedPaths s) ?d) ?d p rp) ?d \<noteq> None"
          by (simp add: cache_set_dir cache_ensure_dir)
        have get: "cache_get (cache_set (cache_ensure (cachedPaths s) ?d) ?d p rp) ?d p = Some rp"
          by (simp add: cache_get_set cache_ensure_dir)
        show ?thesis
        proof (cases "rp = ''//empty.js''")
          case True
          from True False nolib first sp Inr
          have s1: "s1 = ?s1" and m: "m = getShimmedModuleFromPath E cur p"
            by (auto simp: resolveModule_def Let_def)
          show ?thesis using True nolib sp Inr
            by (simp add: s1 m resolveModule_def Let_def cache_ensure_idem cache_set_dir
                  cache_ensure_dir cache_get_set)
        next
          case ns: False
          from ns False nolib first sp Inr
          have s1: "s1 = ?s1" and h: "hasModule s rp" and mm: "moduleAt s rp = Inr m"
            by (auto simp: resolveModule_def Let_def split: prod.splits if_splits)
          have "rp \<noteq> []" using wf h by auto
          then have "resolveModule E ?s1 p cur exts = (Inr m, ?s1)"
            using ns mm get by (intro resolveModule_hit [where rp = rp]) simp_all
          then show ?thesis by (simp add: s1)
        qed
      qed
    qed
  qed
qed

section \<open>updateData, serialize and load: basic facts\<close>


lemma transpileAll_results:
  "transpileAll E ts s = (Inr res, s') \<Longrightarrow> Some r \<in> set res \<Longrightarrow> r \<in> set ts"
proof (induction ts arbitrary: s res)
  case Nil
  then show ?case by simp
next
  case (Cons t ts)
  show ?case
  proof (cases "tm_shouldTranspile E (heap s) t")
    case False
    with Cons.prems(1) obtain res' where r: "transpileAll E ts s = (Inr res', s')"
      and res: "res = None # res'"
      by (cases "transpileAll E ts s") (auto split: sum.splits)
    with Cons.prems(2) Cons.IH [OF r] show ?thesis by auto
  next
    case True
    with Cons.prems(1) obtain s1 where t1: "tm_transpile E s t = Inr s1"
      by (cases "tm_transpile E s t") auto
    with True Cons.prems(1) obtain res' where r: "transpileAll E ts s1 = (Inr res', s')"
      and res: "res = Some t # res'"
      by (cases "transpileAll E ts s1") (auto split: sum.splits)
    with Cons.prems(2) Cons.IH [OF r] show ?thesis by auto
  qed
qed

lemma fold_reset_isTestFile:
  assumes frame: "\<forall>h r r'. tmFlag isTestFile (tm_resetTranspilation E h r) r' = tmFlag isTestFile h r'"
  shows "tmFlag isTestFile (fold (\<lambda>r h. tm_resetTranspilation E h r) rs h) r' = tmFlag isTestFile h r'"
  using frame by (induction rs arbitrary: h) simp_all

lemma transpileAll_isTestFile:
  assumes frame: "\<forall>st r st' r'. tm_transpile E st r = Inr st' \<longrightarrow>
                    tmFlag isTestFile (heap st') r' = tmFlag isTestFile (heap st) r'"
  shows "tmFlag isTestFile (heap (snd (transpileAll E ts s))) r' = tmFlag isTestFile (heap s) r'"
proof (induction ts arbitrary: s)
  case Nil
  then show ?case by simp
next
  case (Cons t ts)
  show ?case
  proof (cases "tm_shouldTranspile E (heap s) t")
    case False
    with Cons.IH [of s] show ?thesis
      by (cases "transpileAll E ts s") (auto split: sum.splits)
  next
    case True
    show ?thesis
    proof (cases "tm_transpile E s t")
      case (Inl e)
      with True show ?thesis by simp
    next
      case (Inr s1)
      then have "tmFlag isTestFile (heap s1) r' = tmFlag isTestFile (heap s) r'"
        using frame by blast
      with True Inr Cons.IH [of s1] show ?thesis
        by (cases "transpileAll E ts s1") (auto split: sum.splits)
    qed
  qed
qed

lemma updateData_pass:
  assumes col: "updateData_collect E s ms = (Inr all, s6)"
  shows "updateData E s ms =
           transpileAll E (filter (\<lambda>r. \<not> tmFlag isTestFile (heap s6) r) all)
             (s6\<lparr>heap := fold (\<lambda>r h. tm_resetTranspilation E h r)
                             (filter (tmFlag isTestFile (heap s6)) all) (heap s6)\<rparr>)"
  by (simp add: updateData_def col thenDo_def Let_def)








lemma addModule_cachedPaths [simp]: "cachedPaths (addModule s m) = cachedPaths s"
  by (simp add: addModule_def split: option.splits)

lemma addTranspiledModule_cachedPaths [simp]:
  "cachedPaths (snd (addTranspiledModule E s m q)) = cachedPaths s"
  by (simp add: addTranspiledModule_def Let_def)






lemma persisted_Nil [simp]: "persisted E s mf [] = {}"
  by (simp add: persisted_def)

lemma persisted_Cons:
  "persisted E s mf (r # rs) =
     (case tmAt s r of None \<Rightarrow> {}
      | Some tm \<Rightarrow> if notPrecomputed mf tm then {tm_getId E tm} else {}) \<union> persisted E s mf rs"
  by (auto simp: persisted_def split: option.splits)

lemma serializeTModules_keys:
  assumes "serializeTModules E s opt rs acc = Inr out" and "manifest s = Some mf"
  shows "fst ` set out = fst ` set acc \<union> persisted E s mf rs"
  using assms
proof (induction rs arbitrary: acc)
  case Nil
  then show ?case by simp
next
  case (Cons r rs)
  from Cons.prems obtain tm where tm: "tmAt s r = Some tm"
    by (cases "tmAt s r") auto
  show ?case
  proof (cases "notPrecomputed mf tm")
    case True
    with Cons.prems tm obtain stm where
      "serializeTModules E s opt rs (AList.update (tm_getId E tm) stm acc) = Inr out"
      by (cases "tm_serialize E (heap s) r opt") auto
    from Cons.IH [OF this Cons.prems(2)] tm True show ?thesis
      by (simp add: persisted_Cons dom_update Un_assoc)
  next
    case False
    with Cons.prems tm have "serializeTModules E s opt rs acc = Inr out" by simp
    from Cons.IH [OF this Cons.prems(2)] tm False show ?thesis
      by (simp add: persisted_Cons)
  qed
qed

lemma getDependencyQuery_clearCache [simp]:
  "getDependencyQuery E (clearCache s) = getDependencyQuery E s"
  by (simp add: getDependencyQuery_def clearCache_def)

section \<open>Errors of a failed resolution\<close>

text \<open>
  What the catch blocks give. When \<open>resolveModule\<close> throws, or
  \<open>resolveModuleAsync\<close> rejects after running the resolution (no usable cache
  entry), the error is exactly one of three:
  with the connected path holding \<open>/node_modules/\<close> and the dependency name
  listed in the manifest's \<open>dependencies\<close> or \<open>dependencyDependencies\<close>, a
  \<open>ModuleNotFoundError\<close> with \<open>isDependency = true\<close>; with \<open>/node_modules/\<close> and
  a name the manifest does not list, a \<open>DependencyNotFoundError\<close>; otherwise a
  \<open>ModuleNotFoundError\<close> with \<open>isDependency = false\<close>. In each case the entry of
  \<open>cachedPaths\<close> for the directory of \<open>currentPath\<close> and the request is gone. The
  manifest has been set, and resolved paths are not empty strings (neither the one
  cached before nor the one the resolver gives).
\<close>

lemma resolveModule_failure_errors:
  assumes mf: "manifest s = Some mf"
    and sp: "getShimmedPath E s p currentPath = Inr shimmedPath"
    and wf: "cache_get (cachedPaths s) (path_dirname E currentPath) p \<noteq> Some []"
    and rs: "resolve_sync E shimmedPath (resolveOptions s currentPath exts) \<noteq> Inr []"
    and fails: "resolveModule E s p currentPath exts = (Inl e, s')
                \<or> (\<not> truthy (cache_get (cachedPaths s) (path_dirname E currentPath) p)
                    \<and> resolveModuleAsync E s p currentPath exts = (Rejected e, s'))"
  shows "e = (let connectedPath = connectedPathOf E shimmedPath currentPath;
                  dependencyPath = str_replace ''/node_modules/'' [] connectedPath
              in if str_includes connectedPath ''/node_modules/''
                 then (if getDependencyName E dependencyPath \<in> fst ` set (dependencies mf)
                          \<or> getDependencyName E dependencyPath
                               \<in> fst ` set (dependencyDependencies mf)
                       then ModuleNotFoundError dependencyPath True currentPath
                       else DependencyNotFoundError dependencyPath currentPath)
                 else ModuleNotFoundError shimmedPath False currentPath)
         \<and> cache_get (cachedPaths s') (path_dirname E currentPath) p = None"
proof -
  let ?d = "path_dirname E currentPath"
  from fails obtain s1 where c: "resolveCatch E s1 ?d p shimmedPath currentPath = (e, s')"
    and m1: "manifest s1 = Some mf"
    and g: "cache_get (cachedPaths s1) ?d p = cache_get (cachedPaths s) ?d p
            \<or> (\<exists>rp. resolve_sync E shimmedPath (resolveOptions s currentPath exts) = Inr rp
                   \<and> cache_get (cachedPaths s1) ?d p = Some rp)"
    using resolveModule_Inl [OF mf sp] resolveModuleAsync_Rejected [OF mf sp] by blast
  from g wf rs have "cache_get (cachedPaths s1) ?d p \<noteq> Some []" by auto
  from resolveCatch_cache [OF c this] resolveCatch_error [OF m1 c]
  show ?thesis by (simp add: knownDependency_iff Let_def)
qed


text \<open>
  The request \<open>react\<close> from \<open>/index.js\<close>, with a manifest that lists \<open>lodash\<close> only:
  a \<open>DependencyNotFoundError\<close>, and no cache entry.
\<close>

lemma resolveModule_failure_errors_example:
  "DependencyNotFoundError ''react'' ''/index.js'' =
     (let connectedPath = connectedPathOf sample_env ''react'' ''/index.js'';
          dependencyPath = str_replace ''/node_modules/'' [] connectedPath
      in if str_includes connectedPath ''/node_modules/''
         then (if getDependencyName sample_env dependencyPath \<in> fst ` set (dependencies sample_manifest)
                  \<or> getDependencyName sample_env dependencyPath
                       \<in> fst ` set (dependencyDependencies sample_manifest)
               then ModuleNotFoundError dependencyPath True ''/index.js''
               else DependencyNotFoundError dependencyPath ''/index.js'')
         else ModuleNotFoundError ''react'' False ''/index.js'')
   \<and> cache_get (cachedPaths (snd (resolveModule sample_env sample_manager ''react'' ''/index.js'' [''js''])))
         (path_dirname sample_env ''/index.js'') ''react'' = None"
proof -
  have mf: "manifest sample_manager = Some sample_manifest" by code_simp
  have sp: "getShimmedPath sample_env sample_manager ''react'' ''/index.js'' = Inr ''react''"
    by code_simp
  have wf: "cache_get (cachedPaths sample_manager) (path_dirname sample_env ''/index.js'') ''react'' \<noteq> Some []"
    by code_simp
  have rs: "resolve_sync sample_env ''react'' (resolveOptions sample_manager ''/index.js'' [''js'']) \<noteq> Inr []"
    by code_simp
  have fails: "resolveModule sample_env sample_manager ''react'' ''/index.js'' [''js'']
      = (Inl (DependencyNotFoundError ''react'' ''/index.js''),
         snd (resolveModule sample_env sample_manager ''react'' ''/index.js'' [''js'']))"
    by code_simp
  show ?thesis
    using resolveModule_failure_errors [OF mf sp wf rs disjI1 [OF fails]] .
qed

text \<open>
  And \<open>resolveModule\<close> does throw when the resolution fails: no cache hit, no Node
  library, and the resolver throws or finds a path that is neither \<open>//empty.js\<close>
  nor registered.
\<close>

lemma resolveModule_raises:
  assumes sp: "getShimmedPath E s p currentPath = Inr shimmedPath"
    and nolib: "shimmedPath \<notin> set NODE_LIBS"
    and miss: "\<not> (truthy (cache_get (cachedPaths s) (path_dirname E currentPath) p)
                   \<and> hasModule s (the (cache_get (cachedPaths s) (path_dirname E currentPath) p)))"
    and failed: "(\<exists>err. resolve_sync E shimmedPath (resolveOptions s currentPath exts) = Inl err)
                 \<or> (\<exists>rp. resolve_sync E shimmedPath (resolveOptions s currentPath exts) = Inr rp
                         \<and> rp \<noteq> ''//empty.js'' \<and> \<not> hasModule s rp)"
  shows "\<exists>e s'. resolveModule E s p currentPath exts = (Inl e, s')"
  using assms
  by (auto simp: resolveModule_def Let_def cache_get_ensure split: prod.splits)

text \<open>
  Claim C1 says that every failure of \<open>resolveModule\<close> and of its async sibling
  raises one of these three errors and deletes the entry of \<open>cachedPaths\<close> for the
  directory of \<open>fromPath\<close> and the request. \<open>resolveModuleAsync\<close> does not: when
  \<open>cachedPaths\<close> holds for the request a path that names no registered module, it
  takes that path for the resolved one (its test is \<open>if (cachedPath)\<close>), runs no
  resolution and rejects with a \<open>TypeError\<close> at
  \<open>this.transpiledModules[resolvedPath].module\<close>, outside the try block: the error is
  none of the three and the entry stays. (\<open>resolveModule\<close> asks for a registered
  module too and resolves anew.) On this path neither the resolver nor \<open>isFile\<close>
  is called, so a host file resolver makes no difference to it.
\<close>

theorem resolveModuleAsync_stale_entry:
  assumes entry: "cache_get (cachedPaths s) (path_dirname E currentPath) p = Some c"
    and ne: "c \<noteq> []"
    and stale: "\<not> hasModule s c"
  shows "resolveModuleAsync E s p currentPath exts = (Rejected TypeError, s)
       \<and> cache_get (cachedPaths (snd (resolveModuleAsync E s p currentPath exts)))
            (path_dirname E currentPath) p = Some c"
proof -
  have e: "cache_ensure (cachedPaths s) (path_dirname E currentPath) = cachedPaths s"
    using cache_get_dir [OF entry] by (rule cache_ensure_idem)
  have m: "moduleAt s c = Inl TypeError"
    using stale by (simp add: hasModule_def moduleAt_def)
  have "resolveModuleAsync E s p currentPath exts = (Rejected TypeError, s)"
    using entry ne m by (simp add: resolveModuleAsync_def Let_def e truthy_def)
  then show ?thesis using entry by simp
qed

text \<open>
  After \<open>fs\<close> has been resolved once from \<open>/index.js\<close>, the cache holds \<open>fs\<close> for
  it; the next \<open>resolveModuleAsync('fs', '/index.js')\<close> rejects with a \<open>TypeError\<close>
  and the entry is still there.
\<close>

theorem resolveModuleAsync_stale_entry_witness:
  "resolveModuleAsync sample_env sample_fs_cached ''fs'' ''/index.js'' [''js'']
     = (Rejected TypeError, sample_fs_cached)
   \<and> cache_get (cachedPaths (snd (resolveModuleAsync sample_env sample_fs_cached ''fs''
                                     ''/index.js'' [''js''])))
        (path_dirname sample_env ''/index.js'') ''fs'' = Some ''fs''"
proof -
  have entry: "cache_get (cachedPaths sample_fs_cached) (path_dirname sample_env ''/index.js'') ''fs''
      = Some ''fs''"
    by code_simp
  have ne: "''fs'' \<noteq> []" by simp
  have stale: "\<not> hasModule sample_fs_cached ''fs''" by code_simp
  show ?thesis by (rule resolveModuleAsync_stale_entry [OF entry ne stale])
qed

section \<open>Sync and async resolution\<close>

text \<open>
  The two resolvers settle alike when the cache entry for the request is unusable
  (absent or empty) or names a registered module other than \<open>//empty.js\<close>, and the
  resolver, where it finds a path, finds \<open>//empty.js\<close> or a registered module.
\<close>

lemma resolveModule_async_agree:
  assumes entry: "\<not> truthy (cache_get (cachedPaths s) (path_dirname E cur) p)
                  \<or> (hasModule s (the (cache_get (cachedPaths s) (path_dirname E cur) p))
                      \<and> the (cache_get (cachedPaths s) (path_dirname E cur) p) \<noteq> ''//empty.js'')"
    and found: "\<forall>sp rp. getShimmedPath E s p cur = Inr sp \<longrightarrow>
                  resolve_sync E sp (resolveOptions s cur exts) = Inr rp \<longrightarrow>
                  rp = ''//empty.js'' \<or> hasModule s rp"
  shows "resolveModuleAsync E s p cur exts = settled (resolveModule E s p cur exts)"
proof -
  let ?d = "path_dirname E cur"
  let ?c = "cache_get (cachedPaths s) ?d p"
  show ?thesis
  proof (cases "truthy ?c")
    case True
    with entry have h: "hasModule s (the ?c)" and ne: "the ?c \<noteq> ''//empty.js''" by auto
    from moduleAt_hasModule [OF h] obtain m where "moduleAt s (the ?c) = Inr m" ..
    with True h ne show ?thesis
      by (simp add: resolveModule_def resolveModuleAsync_def settled_def Let_def cache_get_ensure)
  next
    case False
    show ?thesis
    proof (cases "getShimmedPath E s p cur")
      case (Inl e)
      with False show ?thesis
        by (simp add: resolveModule_def resolveModuleAsync_def settled_def Let_def cache_get_ensure)
    next
      case (Inr sp)
      show ?thesis
      proof (cases "resolve_sync E sp (resolveOptions s cur exts)")
        case (Inl err)
        with False Inr show ?thesis
          by (simp add: resolveModule_def resolveModuleAsync_def settled_def Let_def
                cache_get_ensure split: prod.splits)
      next
        case rp: (Inr rp)
        with found Inr have "rp = ''//empty.js'' \<or> hasModule s rp" by blast
        moreover from moduleAt_hasModule [of s rp]
        have "hasModule s rp \<Longrightarrow> \<exists>m. moduleAt s rp = Inr m" .
        ultimately show ?thesis using False Inr rp
          by (auto simp: resolveModule_def resolveModuleAsync_def settled_def Let_def
                cache_get_ensure split: prod.splits)
      qed
    qed
  qed
qed

text \<open>
  Claim C2 says that \<open>resolveModule\<close> and \<open>resolveModuleAsync\<close> agree on every
  input and state. They do not once a Node library has been resolved: the first
  \<open>resolveModuleAsync('fs', '/index.js')\<close> answers the shim and caches \<open>fs\<close>; in the
  state it leaves, \<open>resolveModule\<close> answers the shim again (its cache test asks for
  a registered module too, fails, and the Node-library branch answers), while
  \<open>resolveModuleAsync\<close> takes the cached \<open>fs\<close> for a resolved path and rejects
  with a \<open>TypeError\<close> at \<open>this.transpiledModules[resolvedPath].module\<close>.
\<close>

theorem resolveModuleAsync_cached_node_lib:
  "fst (resolveModuleAsync sample_env sample_manager ''fs'' ''/index.js'' [''js''])
     = Fulfilled (getShimmedModuleFromPath sample_env ''/index.js'' ''fs'')
   \<and> cachedPaths sample_fs_cached = [(''/'', [(''fs'', ''fs'')])]
   \<and> fst (resolveModule sample_env sample_fs_cached ''fs'' ''/index.js'' [''js''])
     = Inr (getShimmedModuleFromPath sample_env ''/index.js'' ''fs'')
   \<and> fst (resolveModuleAsync sample_env sample_fs_cached ''fs'' ''/index.js'' [''js''])
     = Rejected TypeError"
  by code_simp

section \<open>Missing dependencies during async resolution\<close>

text \<open>
  Claim C3, as the code has it. When the resolution inside
  \<open>resolveTranspiledModuleAsync\<close> throws a \<open>ModuleNotFoundError\<close> whose
  \<open>isDependency\<close> is true (a file of a dependency the manifest knows), the result is
  that of \<open>downloadDependency\<close> for the error's path, the current module and the
  request's query, started in the state the failed resolution left; and
  \<open>downloadDependency\<close> fulfils with the transpiled module of the module that
  \<open>fetchModule\<close> brings. Every other error, \<open>DependencyNotFoundError\<close> included,
  rejects the promise as it is, in that same state.
\<close>

theorem resolveTranspiledModuleAsync_failure:
  assumes tm: "tmAt s r = Some tm"
    and fails: "resolveTranspiledModule E s p (m_path (tm_module tm)) exts False = (Inl e, s1)"
  shows "(\<forall>ep f. e = ModuleNotFoundError ep True f \<longrightarrow>
            resolveTranspiledModuleAsync E s p (Some r) exts
              = downloadDependency E s1 ep r (fst (splitQueryFromPath E p)) exts)
       \<and> ((\<forall>ep f. e \<noteq> ModuleNotFoundError ep True f) \<longrightarrow>
            resolveTranspiledModuleAsync E s p (Some r) exts = (Rejected e, s1))
       \<and> (\<forall>ep q m s2.
            fetchModule E s1 ep r (case exts of Some x \<Rightarrow> x | None \<Rightarrow> ignoredExtensions E)
              = (Inr m, s2) \<longrightarrow>
            downloadDependency E s1 ep r q exts
              = (Fulfilled (fst (getTranspiledModule E s2 m q)),
                 snd (getTranspiledModule E s2 m q)))"
  using assms
  by (auto simp: resolveTranspiledModuleAsync_def isMissingDependencyFile_def
        downloadDependency_def split: error.splits bool.splits prod.splits)

text \<open>
  The request \<open>lodash\<close> from \<open>/index.js\<close>: the manifest lists it, no file of it is
  there, and it is downloaded.
\<close>

theorem resolveTranspiledModuleAsync_failure_witness:
  "resolveTranspiledModuleAsync sample_env sample_transpiled ''lodash'' (Some 0) None
     = downloadDependency sample_env
         (snd (resolveTranspiledModule sample_env sample_transpiled ''lodash'' ''/index.js'' None False))
         ''lodash'' 0 (fst (splitQueryFromPath sample_env ''lodash'')) None
   \<and> fst (resolveTranspiledModuleAsync sample_env sample_transpiled ''lodash'' (Some 0) None)
     = Fulfilled 1"
proof -
  have tm: "tmAt sample_transpiled 0 = Some (new_TranspiledModule sample_env sample_index [])"
    by code_simp
  have fails: "resolveTranspiledModule sample_env sample_transpiled ''lodash''
                 (m_path (tm_module (new_TranspiledModule sample_env sample_index []))) None False
     = (Inl (ModuleNotFoundError ''lodash'' True ''/index.js''),
        snd (resolveTranspiledModule sample_env sample_transpiled ''lodash'' ''/index.js'' None False))"
    by code_simp
  have "resolveTranspiledModuleAsync sample_env sample_transpiled ''lodash'' (Some 0) None
     = downloadDependency sample_env
         (snd (resolveTranspiledModule sample_env sample_transpiled ''lodash'' ''/index.js'' None False))
         ''lodash'' 0 (fst (splitQueryFromPath sample_env ''lodash'')) None"
    using resolveTranspiledModuleAsync_failure [OF tm fails] by blast
  moreover have "fst (resolveTranspiledModuleAsync sample_env sample_transpiled ''lodash'' (Some 0) None)
     = Fulfilled 1"
    by code_simp
  ultimately show ?thesis by simp
qed

text \<open>
  Claim C3 as stated fails: the request \<open>react\<close>, which the manifest does not
  list, fails with a \<open>DependencyNotFoundError\<close>, and the promise is rejected with
  it in the state the failed resolution left, although a download would bring the
  file.
\<close>

theorem resolveTranspiledModuleAsync_counterexample:
  "fst (resolveTranspiledModule sample_env sample_transpiled ''react'' ''/index.js'' None False)
     = Inl (DependencyNotFoundError ''react'' ''/index.js'')
   \<and> resolveTranspiledModuleAsync sample_env sample_transpiled ''react'' (Some 0) None
     = (Rejected (DependencyNotFoundError ''react'' ''/index.js''),
        snd (resolveTranspiledModule sample_env sample_transpiled ''react'' ''/index.js'' None False))
   \<and> fst (downloadDependency sample_env sample_transpiled ''react'' 0 [] None) = Fulfilled 1"
  by code_simp

section \<open>Loading a cache\<close>

text \<open>
  Claim C4. When the version of the cached data is not \<open>SCRIPT_VERSION\<close> or its
  dependency query is not the Manager's, \<open>load\<close> returns normally and leaves the
  Manager as it was, the registries included; only the IndexedDB cache has been
  cleared (twice). So the transpiled modules are restored only when both match.
  And \<open>load\<close> never throws, whatever the data.
\<close>

theorem load_mismatch_discards:
  assumes "sd_version d \<noteq> SCRIPT_VERSION E \<or> sd_dependenciesQuery d \<noteq> getDependencyQuery E s"
  shows "load E s (Some d) = (Inr (), s\<lparr>idbClears := Suc (Suc (idbClears s))\<rparr>)
         \<and> fst (load E s dat) = Inr ()"
proof -
  have "load_try E s (Some d) = (Inr (), clearCache s)"
    using assms by (auto simp: load_try_def Let_def)
  then show ?thesis by (simp add: load_def clearCache_def split: prod.splits)
qed

text \<open>
  The cache of a Manager whose manifest lists \<open>lodash\<close>, loaded into a new Manager
  whose manifest lists \<open>react\<close>: nothing is restored.
\<close>

theorem load_mismatch_discards_witness:
  "load sample_env sample_other_dependencies (Some sample_cache)
     = (Inr (), sample_other_dependencies\<lparr>idbClears := Suc (Suc (idbClears sample_other_dependencies))\<rparr>)
   \<and> fst (load sample_env sample_other_dependencies None) = Inr ()"
proof -
  have "sd_version sample_cache \<noteq> SCRIPT_VERSION sample_env
        \<or> sd_dependenciesQuery sample_cache \<noteq> getDependencyQuery sample_env sample_other_dependencies"
    by code_simp
  then show ?thesis by (rule load_mismatch_discards)
qed

section \<open>What serialize persists\<close>

text \<open>
  Claim C5, as the code has it. In the record \<open>serialize\<close> returns, an identifier
  is a key of \<open>transpiledModules\<close> exactly when it is the id of a transpiled module
  of the registry for which not all three hold: the manifest's contents have its
  module's path, the module is not a \<open>.js\<close> file without \<open>requires\<close> (the only
  modules that \<open>serialize\<close> counts as transpiled), and the module was not
  downloaded.
\<close>

theorem serialize_omits_precomputed:
  assumes ser: "serialize E s entryPath optimizeForSize now = Inr d"
    and mf: "manifest s = Some mf"
  shows "ident \<in> fst ` set (sd_transpiledModules d) \<longleftrightarrow>
         (\<exists>r\<in>set (allTModules s).
            case tmAt s r of
              None \<Rightarrow> False
            | Some tm \<Rightarrow>
                tm_getId E tm = ident
                \<and> \<not> (map_of (contents mf) (m_path (tm_module tm)) \<noteq> None
                     \<and> \<not> (endsWith (m_path (tm_module tm)) ''.js'' \<and> m_requires (tm_module tm) = None)
                     \<and> \<not> m_downloaded (tm_module tm)))"
proof -
  from ser obtain out where out: "serializeTModules E s optimizeForSize (allTModules s) [] = Inr out"
    and d: "sd_transpiledModules d = out"
    by (cases "serializeTModules E s optimizeForSize (allTModules s) []")
       (auto simp: serialize_def)
  have eq: "notPrecomputed mf tm \<longleftrightarrow>
      \<not> (map_of (contents mf) (m_path (tm_module tm)) \<noteq> None
         \<and> \<not> (endsWith (m_path (tm_module tm)) ''.js'' \<and> m_requires (tm_module tm) = None)
         \<and> \<not> m_downloaded (tm_module tm))" for tm
    by (auto simp: notPrecomputed_def)
  have "fst ` set out = persisted E s mf (allTModules s)"
    using serializeTModules_keys [OF out mf] by simp
  then have "ident \<in> fst ` set (sd_transpiledModules d) \<longleftrightarrow>
      (\<exists>r\<in>set (allTModules s).
         case tmAt s r of None \<Rightarrow> False
         | Some tm \<Rightarrow> tm_getId E tm = ident \<and> notPrecomputed mf tm)"
    by (simp add: d persisted_def)
  then show ?thesis unfolding eq .
qed

text \<open>
  A Manager with the user's \<open>/index.js\<close> and a file the manifest brings with its
  \<open>requires\<close>: the first is persisted, the second is not.
\<close>

theorem serialize_omits_precomputed_witness:
  "''/index.js:'' \<in> fst ` set (sd_transpiledModules
       (projr (serialize sample_env sample_precomputed (Some ''/index.js'') True 0)))
   \<and> ''/node_modules/lodash/index.js:'' \<notin> fst ` set (sd_transpiledModules
       (projr (serialize sample_env sample_precomputed (Some ''/index.js'') True 0)))"
proof -
  let ?d = "projr (serialize sample_env sample_precomputed (Some ''/index.js'') True 0)"
  let ?mf = "sample_manifest\<lparr>contents :=
               [(''/node_modules/lodash/index.js'', (''module.exports = {}'', []))]\<rparr>"
  have ser: "serialize sample_env sample_precomputed (Some ''/index.js'') True 0 = Inr ?d"
    by code_simp
  have mf: "manifest sample_precomputed = Some ?mf"
    by code_simp
  have a: "(\<exists>r\<in>set (allTModules sample_precomputed).
            case tmAt sample_precomputed r of
              None \<Rightarrow> False
            | Some tm \<Rightarrow>
                tm_getId sample_env tm = ''/index.js:''
                \<and> \<not> (map_of (contents ?mf) (m_path (tm_module tm)) \<noteq> None
                     \<and> \<not> (endsWith (m_path (tm_module tm)) ''.js'' \<and> m_requires (tm_module tm) = None)
                     \<and> \<not> m_downloaded (tm_module tm)))"
    by code_simp
  have b: "\<not> (\<exists>r\<in>set (allTModules sample_precomputed).
            case tmAt sample_precomputed r of
              None \<Rightarrow> False
            | Some tm \<Rightarrow>
                tm_getId sample_env tm = ''/node_modules/lodash/index.js:''
                \<and> \<not> (map_of (contents ?mf) (m_path (tm_module tm)) \<noteq> None
                     \<and> \<not> (endsWith (m_path (tm_module tm)) ''.js'' \<and> m_requires (tm_module tm) = None)
                     \<and> \<not> m_downloaded (tm_module tm)))"
    by code_simp
  show ?thesis
    using serialize_omits_precomputed [OF ser mf, of "''/index.js:''"]
      serialize_omits_precomputed [OF ser mf, of "''/node_modules/lodash/index.js:''"] a b
    by blast
qed

text \<open>
  Claim C5 as stated fails for a file of the manifest that required transpilation
  and is not named \<open>.js\<close>: \<open>setManifest\<close> gives \<open>/node_modules/esm-lib/index.mjs\<close>
  no \<open>requires\<close>, because its code has to be transpiled; the manifest provides it
  and it was not downloaded, so one of the three conditions fails, yet \<open>serialize\<close>
  leaves its transpiled module out of the record.
\<close>

theorem serialize_omits_precomputed_counterexample:
  "shouldTranspile sample_env ''export default 1'' ''/node_modules/esm-lib/index.mjs''
   \<and> manifest sample_esm = Some sample_esm_manifest
   \<and> map fst (contents sample_esm_manifest) = [''/node_modules/esm-lib/index.mjs'']
   \<and> allTModules sample_esm = [0]
   \<and> map (m_path \<circ> tm_module) (heap sample_esm) = [''/node_modules/esm-lib/index.mjs'']
   \<and> map (m_requires \<circ> tm_module) (heap sample_esm) = [None]
   \<and> map (m_downloaded \<circ> tm_module) (heap sample_esm) = [False]
   \<and> serialize sample_env sample_esm None True 0
       = Inr (projr (serialize sample_env sample_esm None True 0))
   \<and> sd_transpiledModules (projr (serialize sample_env sample_esm None True 0)) = []"
  by code_simp

section \<open>updateData and the cache of resolved paths\<close>




section \<open>Resolving twice\<close>

text \<open>
  Claim C7, as the code has it. After \<open>resolveModule\<close> has returned a module, a
  second call in the state it left returns the same module (no stored module being
  named like a Node library or by the empty path). When that module is a stored one
  and not the empty shim, \<open>cachedPaths\<close> holds its path under the directory of
  \<open>fromPath\<close> and the request, and the second call is answered from that entry:
  whatever the resolver and the extensions, it returns the module and leaves the
  state as it is.
\<close>

theorem resolveModule_twice:
  assumes first: "resolveModule E s p cur exts = (Inr m, s1)"
    and libs: "\<forall>l\<in>set NODE_LIBS. \<not> hasModule s l"
    and wf: "\<not> hasModule s []"
  shows "fst (resolveModule E s1 p cur exts) = Inr m
       \<and> (m \<noteq> getShimmedModuleFromPath E cur p \<longrightarrow>
            (\<exists>rp. cache_get (cachedPaths s1) (path_dirname E cur) p = Some rp
                  \<and> moduleAt s1 rp = Inr m)
            \<and> resolveModule (E\<lparr>resolve_sync := r\<rparr>) s1 p cur exts' = (Inr m, s1))"
proof (cases "m = getShimmedModuleFromPath E cur p")
  case True
  then show ?thesis using resolveModule_again [OF first libs wf] by simp
next
  case False
  with resolveModule_Inr_cases [OF first] obtain rp where
    c: "cache_get (cachedPaths s1) (path_dirname E cur) p = Some rp" and h: "hasModule s rp"
    and ns: "rp \<noteq> ''//empty.js''" and mm: "moduleAt s1 rp = Inr m" by blast
  have ne: "rp \<noteq> []" using wf h by auto
  have "resolveModule (E\<lparr>resolve_sync := r\<rparr>) s1 p cur exts' = (Inr m, s1)"
    using c ne ns mm by (intro resolveModule_hit [where rp = rp]) simp_all
  then show ?thesis using False c mm resolveModule_again [OF first libs wf] by auto
qed

text \<open>
  \<open>./dep\<close> from \<open>/index.js\<close>: the second call gives \<open>/dep.js\<close> again, also when
  the resolver cannot be reached.
\<close>

theorem resolveModule_twice_witness:
  "fst (resolveModule sample_env sample_dep_cached ''./dep'' ''/index.js'' [''js''])
     = Inr (sample_module ''/dep.js'' ''exports.value = 41'')
   \<and> resolveModule (sample_env\<lparr>resolve_sync := no_resolver\<rparr>) sample_dep_cached
        ''./dep'' ''/index.js'' []
     = (Inr (sample_module ''/dep.js'' ''exports.value = 41''), sample_dep_cached)"
proof -
  have first: "resolveModule sample_env sample_manager ''./dep'' ''/index.js'' [''js'']
      = (Inr (sample_module ''/dep.js'' ''exports.value = 41''), sample_dep_cached)"
    by code_simp
  have libs: "\<forall>l\<in>set NODE_LIBS. \<not> hasModule sample_manager l"
    by code_simp
  have wf: "\<not> hasModule sample_manager []"
    by code_simp
  have stored: "sample_module ''/dep.js'' ''exports.value = 41''
      \<noteq> getShimmedModuleFromPath sample_env ''/index.js'' ''./dep''"
    by code_simp
  from resolveModule_twice [OF first libs wf, of no_resolver "[]"] stored
  show ?thesis by blast
qed

text \<open>
  Claim C7 as stated fails for a request that resolves to the empty shim: the first
  call caches \<open>//empty.js\<close>, no module is registered under that path, and the second
  call runs the resolver again; with a resolver that cannot be reached it fails.
\<close>

theorem resolveModule_twice_counterexample:
  "fst (resolveModule sample_env sample_manager ''browser-false'' ''/index.js'' [''js''])
     = Inr (getShimmedModuleFromPath sample_env ''/index.js'' ''browser-false'')
   \<and> cache_get (cachedPaths sample_shim_cached) ''/'' ''browser-false'' = Some ''//empty.js''
   \<and> fst (resolveModule sample_env sample_shim_cached ''browser-false'' ''/index.js'' [''js''])
     = Inr (getShimmedModuleFromPath sample_env ''/index.js'' ''browser-false'')
   \<and> fst (resolveModule (sample_env\<lparr>resolve_sync := no_resolver\<rparr>) sample_shim_cached
            ''browser-false'' ''/index.js'' [''js''])
     = Inl (DependencyNotFoundError ''browser-false'' ''/index.js'')"
  by code_simp

section \<open>Hard reload\<close>

text \<open>
  Claim C8, as the code has it. When a hard reload is pending and this is not the
  first load, \<open>evaluateModule\<close> reloads the host page and returns \<open>{}\<close>; nothing
  else of the Manager changes and no collaborator is called, so no transpiled
  module is evaluated.
\<close>

theorem evaluateModule_hard_reload:
  "hardReload s \<Longrightarrow> \<not> isFirstLoad s \<Longrightarrow>
     evaluateModule E s m force testGlobals = (Inr (JObj []), s\<lparr>reloads := Suc (reloads s)\<rparr>)"
  by (simp add: evaluateModule_def)

theorem evaluateModule_hard_reload_witness:
  "evaluateModule sample_env ((markHardReload sample_manager)\<lparr>isFirstLoad := False\<rparr>)
      sample_index False False
     = (Inr (JObj []),
        (markHardReload sample_manager)\<lparr>isFirstLoad := False,
           reloads := Suc (reloads ((markHardReload sample_manager)\<lparr>isFirstLoad := False\<rparr>))\<rparr>)"
proof -
  have a: "hardReload ((markHardReload sample_manager)\<lparr>isFirstLoad := False\<rparr>)"
    by (simp add: markHardReload_def)
  have b: "\<not> isFirstLoad ((markHardReload sample_manager)\<lparr>isFirstLoad := False\<rparr>)"
    by simp
  show ?thesis using evaluateModule_hard_reload [OF a b] by simp
qed

text \<open>
  Claim C8 as stated fails on the first load: after \<open>markHardReload\<close> on a new
  Manager the flag is set, and \<open>evaluateModule\<close> does not reload the page but
  evaluates the module (its transpiled module, reference 0, has a compilation
  afterwards).
\<close>

theorem evaluateModule_hard_reload_counterexample:
  "hardReload (markHardReload sample_manager)
   \<and> reloads (snd (evaluateModule sample_env (markHardReload sample_manager) sample_index False False))
     = reloads (markHardReload sample_manager)
   \<and> tmFlag (\<lambda>tm. compilation tm = Some (JObj []))
        (heap (snd (evaluateModule sample_env (markHardReload sample_manager) sample_index False False))) 0"
  by code_simp

section \<open>Webpack paths\<close>

text \<open>
  Claim C9. A path that starts with \<open>webpack:\<close> makes \<open>resolveTranspiledModule\<close>
  throw \<open>Error('Cannot resolve webpack path')\<close>, with and without \<open>async\<close>, whatever
  the current path; the Manager is as before, its cache included, and no
  collaborator has a say in the result.
\<close>

theorem resolveTranspiledModule_webpack:
  "startsWith p ''webpack:'' \<Longrightarrow>
     resolveTranspiledModule E s p currentPath ignoredExts async
       = (Inl (JSError ''Cannot resolve webpack path''), s)"
  by (simp add: resolveTranspiledModule_def)

theorem resolveTranspiledModule_webpack_witness:
  "resolveTranspiledModule sample_env sample_manager ''webpack:///src/a.js'' ''/index.js'' None True
     = (Inl (JSError ''Cannot resolve webpack path''), sample_manager)"
proof -
  have "startsWith ''webpack:///src/a.js'' ''webpack:''" by simp
  then show ?thesis by (rule resolveTranspiledModule_webpack)
qed

section \<open>Test files in updateData\<close>

text \<open>
  Claim C10. Of \<open>allModulesToUpdate\<close>, \<open>updateData\<close> resets the transpilation of
  the modules flagged \<open>isTestFile\<close> and hands the others, and only them, to the
  retranspile pass. So every transpiled module in the array it returns is one of
  \<open>allModulesToUpdate\<close> that was not flagged when the pass was set up; and it is
  not flagged when \<open>updateData\<close> returns, if resetting and transpiling leave the
  flags alone.
\<close>

theorem updateData_skips_test_files:
  assumes col: "updateData_collect E s ms = (Inr allModulesToUpdate, s6)"
    and ret: "updateData E s ms = (Inr res, s')"
  shows "updateData E s ms =
           transpileAll E (filter (\<lambda>r. \<not> tmFlag isTestFile (heap s6) r) allModulesToUpdate)
             (s6\<lparr>heap := fold (\<lambda>r h. tm_resetTranspilation E h r)
                             (filter (tmFlag isTestFile (heap s6)) allModulesToUpdate) (heap s6)\<rparr>)
       \<and> (\<forall>r. Some r \<in> set res \<longrightarrow> r \<in> set allModulesToUpdate \<and> \<not> tmFlag isTestFile (heap s6) r)
       \<and> ((\<forall>h r r'. tmFlag isTestFile (tm_resetTranspilation E h r) r' = tmFlag isTestFile h r')
           \<and> (\<forall>st r st' r'. tm_transpile E st r = Inr st' \<longrightarrow>
                  tmFlag isTestFile (heap st') r' = tmFlag isTestFile (heap st) r')
           \<longrightarrow> (\<forall>r. Some r \<in> set res \<longrightarrow> \<not> tmFlag isTestFile (heap s') r))"
proof -
  let ?todo = "filter (\<lambda>r. \<not> tmFlag isTestFile (heap s6) r) allModulesToUpdate"
  let ?h7 = "fold (\<lambda>r h. tm_resetTranspilation E h r)
               (filter (tmFlag isTestFile (heap s6)) allModulesToUpdate) (heap s6)"
  have pass: "updateData E s ms = transpileAll E ?todo (s6\<lparr>heap := ?h7\<rparr>)"
    using updateData_pass [OF col] .
  with ret have run: "transpileAll E ?todo (s6\<lparr>heap := ?h7\<rparr>) = (Inr res, s')" by simp
  have sel: "r \<in> set allModulesToUpdate \<and> \<not> tmFlag isTestFile (heap s6) r"
    if "Some r \<in> set res" for r
    using transpileAll_results [OF run that] by simp
  have fin: "\<not> tmFlag isTestFile (heap s') r"
    if fr: "\<forall>h r r'. tmFlag isTestFile (tm_resetTranspilation E h r) r' = tmFlag isTestFile h r'"
      and ft: "\<forall>st r st' r'. tm_transpile E st r = Inr st' \<longrightarrow>
                  tmFlag isTestFile (heap st') r' = tmFlag isTestFile (heap st) r'"
      and r: "Some r \<in> set res" for r
  proof -
    have "tmFlag isTestFile (heap s') r = tmFlag isTestFile ?h7 r"
      using transpileAll_isTestFile [OF ft, of ?todo "s6\<lparr>heap := ?h7\<rparr>" r] run by simp
    also have "\<dots> = tmFlag isTestFile (heap s6) r"
      using fold_reset_isTestFile [OF fr] .
    finally show ?thesis using sel [OF r] by simp
  qed
  from pass sel fin show ?thesis by blast
qed

text \<open>
  Both \<open>/index.js\<close> (reference 0) and the test file \<open>/index.test.js\<close> (reference 1)
  are edited: the array holds reference 0 only, and the test file is left reset,
  without source.
\<close>

theorem updateData_skips_test_files_witness:
  "fst (updateData_collect sample_env sample_tested sample_edit) = Inr [0, 1]
   \<and> fst (updateData sample_env sample_tested sample_edit) = Inr [Some 0]
   \<and> \<not> tmFlag isTestFile (heap (snd (updateData_collect sample_env sample_tested sample_edit))) 0
   \<and> tmFlag isTestFile (heap (snd (updateData sample_env sample_tested sample_edit))) 1
   \<and> tmFlag (\<lambda>tm. tm_source tm = None) (heap (snd (updateData sample_env sample_tested sample_edit))) 1"
proof -
  have f1: "fst (updateData_collect sample_env sample_tested sample_edit) = Inr [0, 1]"
    by code_simp
  have f2: "fst (updateData sample_env sample_tested sample_edit) = Inr [Some 0]"
    by code_simp
  have col: "updateData_collect sample_env sample_tested sample_edit
      = (Inr [0, 1], snd (updateData_collect sample_env sample_tested sample_edit))"
    by (metis f1 prod.collapse)
  have ret: "updateData sample_env sample_tested sample_edit
      = (Inr [Some 0], snd (updateData sample_env sample_tested sample_edit))"
    by (metis f2 prod.collapse)
  have "\<not> tmFlag isTestFile (heap (snd (updateData_collect sample_env sample_tested sample_edit))) 0"
    using updateData_skips_test_files [OF col ret] by simp
  moreover have "tmFlag isTestFile (heap (snd (updateData sample_env sample_tested sample_edit))) 1
     \<and> tmFlag (\<lambda>tm. tm_source tm = None) (heap (snd (updateData sample_env sample_tested sample_edit))) 1"
    by code_simp
  ultimately show ?thesis using f1 f2 by blast
qed

end
